theory Spec2Isabelle
  imports Complex_Main
begin

section \<open>Reference species of arkane/reference.py\<close>

text \<open>
  The module targets Python 2 (\<^verbatim>\<open>from __future__ import print_function, division\<close>,
  \<^verbatim>\<open>super(ReferenceSpecies, self)\<close>): \<^verbatim>\<open>dict.keys()\<close> and \<^verbatim>\<open>dict.values()\<close> are lists
  in corresponding order, and \<^verbatim>\<open>sources[i]\<close> indexes such a list. A dictionary is an
  association list in the dictionary's iteration order. Floats are modelled by reals; the
  code only compares them and multiplies by a constant.
\<close>

subsection \<open>Values, errors and collaborators\<close>

datatype error =
    ValueError string
  | KeyError string
  | AttributeError string
  | IndexError
  | OSError string

text \<open>An attribute of an instance that an \<^verbatim>\<open>__init__\<close> may leave without a value.\<close>

datatype 'a attr = Unassigned | Assigned 'a

text \<open>
  Collaborators that are not part of the module: a quantity with its SI value and
  uncertainty, the thermochemistry record exposing \<^verbatim>\<open>H298\<close>, and the conformer with the
  SI arrays of atomic numbers and coordinates.
\<close>

record ScalarQuantity =
  value_si :: real
  uncertainty_si :: real
  units :: string

record ThermoData =
  H298 :: ScalarQuantity

record Conformer =
  number :: "real list"
  coordinates :: "real list list"

text \<open>
  An attribute is missing (\<open>Unassigned\<close>) until a setter assigns it; Python's None is
  \<open>Assigned None\<close>. The setter of \<^verbatim>\<open>ReferenceDataEntry._thermo_data\<close> and the setter of
  \<^verbatim>\<open>CalculatedDataEntry._conformer\<close> assign whenever they return; the setter of
  \<^verbatim>\<open>CalculatedDataEntry._thermo_data\<close> assigns in one branch only, and never None.
\<close>

record ReferenceDataEntry =
  rde_thermo_data :: "ThermoData option attr"
  atct_id :: "string option"

record CalculatedDataEntry =
  cde_conformer :: "Conformer option attr"
  cde_thermo_data :: "ThermoData attr"
  t1_diagnostic :: "real option"
  fod :: "real option"

text \<open>The Python values that reach the validated setters.\<close>

datatype pyval =
    PNone
  | PBool bool
  | PInt int
  | PFloat real
  | PStr string
  | PList "pyval list"
  | PDict "(pyval \<times> pyval) list"
  | PThermoData ThermoData
  | PConformer Conformer
  | PReferenceDataEntry ReferenceDataEntry
  | PCalculatedDataEntry CalculatedDataEntry

text \<open>Truth value of \<^verbatim>\<open>if value:\<close>; instances of the classes have no \<^verbatim>\<open>__len__\<close>.\<close>

fun truthy :: "pyval \<Rightarrow> bool" where
  "truthy PNone = False"
| "truthy (PBool b) = b"
| "truthy (PInt i) = (i \<noteq> 0)"
| "truthy (PFloat x) = (x \<noteq> 0)"
| "truthy (PStr s) = (s \<noteq> [])"
| "truthy (PList xs) = (xs \<noteq> [])"
| "truthy (PDict kvs) = (kvs \<noteq> [])"
| "truthy (PThermoData t) = True"
| "truthy (PConformer c) = True"
| "truthy (PReferenceDataEntry e) = True"
| "truthy (PCalculatedDataEntry e) = True"

subsection \<open>ReferenceDataEntry and CalculatedDataEntry\<close>

text \<open>
  \<^verbatim>\<open>ReferenceDataEntry.thermo_data\<close> setter (lines 305-313): a falsy value stores None.
\<close>

definition ReferenceDataEntry_thermo_data_setter ::
  "ReferenceDataEntry \<Rightarrow> pyval \<Rightarrow> error + ReferenceDataEntry" where
  "ReferenceDataEntry_thermo_data_setter self v =
     (if truthy v then
        (case v of
           PThermoData t \<Rightarrow> Inr (self\<lparr>rde_thermo_data := Assigned (Some t)\<rparr>)
         | _ \<Rightarrow> Inl (ValueError
             ''thermo_data for a ReferenceDataEntry object must be an rmgpy ThermoData instance''))
      else Inr (self\<lparr>rde_thermo_data := Assigned None\<rparr>))"

text \<open>
  \<^verbatim>\<open>ReferenceDataEntry.__init__(thermo_data, atct_id=None)\<close> (lines 287-296). The parent
  \<^verbatim>\<open>RMGObject.__init__\<close> assigns nothing.
\<close>

definition ReferenceDataEntry_init :: "pyval \<Rightarrow> string option \<Rightarrow> error + ReferenceDataEntry" where
  "ReferenceDataEntry_init thermo_data a =
     (case ReferenceDataEntry_thermo_data_setter
             \<lparr>rde_thermo_data = Unassigned, atct_id = None\<rparr> thermo_data of
        Inl e \<Rightarrow> Inl e
      | Inr self \<Rightarrow> Inr (self\<lparr>atct_id := a\<rparr>))"

text \<open>The property getter: \<^verbatim>\<open>return self._thermo_data\<close>.\<close>

definition ReferenceDataEntry_thermo_data :: "ReferenceDataEntry \<Rightarrow> error + pyval" where
  "ReferenceDataEntry_thermo_data self =
     (case rde_thermo_data self of
        Unassigned \<Rightarrow> Inl (AttributeError ''_thermo_data'')
      | Assigned None \<Rightarrow> Inr PNone
      | Assigned (Some t) \<Rightarrow> Inr (PThermoData t))"

text \<open>\<^verbatim>\<open>entry.thermo_data.H298\<close>: None has no attribute \<^verbatim>\<open>H298\<close>.\<close>

definition ReferenceDataEntry_H298 :: "ReferenceDataEntry \<Rightarrow> error + ScalarQuantity" where
  "ReferenceDataEntry_H298 entry =
     (case rde_thermo_data entry of
        Unassigned \<Rightarrow> Inl (AttributeError ''_thermo_data'')
      | Assigned None \<Rightarrow> Inl (AttributeError ''H298'')
      | Assigned (Some td) \<Rightarrow> Inr (H298 td))"

text \<open>\<^verbatim>\<open>CalculatedDataEntry.conformer\<close> setter (lines 346-354).\<close>

definition CalculatedDataEntry_conformer_setter ::
  "CalculatedDataEntry \<Rightarrow> pyval \<Rightarrow> error + CalculatedDataEntry" where
  "CalculatedDataEntry_conformer_setter self v =
     (if truthy v then
        (case v of
           PConformer c \<Rightarrow> Inr (self\<lparr>cde_conformer := Assigned (Some c)\<rparr>)
         | _ \<Rightarrow> Inl (ValueError
             ''conformer for a CalculatedDataEntry object must be an rmgpy Conformer instance''))
      else Inr (self\<lparr>cde_conformer := Assigned None\<rparr>))"

text \<open>
  \<^verbatim>\<open>CalculatedDataEntry.thermo_data\<close> setter (lines 360-366): the outer \<^verbatim>\<open>if value:\<close>
  has no \<^verbatim>\<open>else\<close>, a falsy value assigns nothing.
\<close>

definition CalculatedDataEntry_thermo_data_setter ::
  "CalculatedDataEntry \<Rightarrow> pyval \<Rightarrow> error + CalculatedDataEntry" where
  "CalculatedDataEntry_thermo_data_setter self v =
     (if truthy v then
        (case v of
           PThermoData t \<Rightarrow> Inr (self\<lparr>cde_thermo_data := Assigned t\<rparr>)
         | _ \<Rightarrow> Inl (ValueError
             ''thermo_data for a CalculatedDataEntry object must be an rmgpy ThermoData object''))
      else Inr self)"

text \<open>
  \<^verbatim>\<open>CalculatedDataEntry.__init__(conformer, thermo_data, t1_diagnostic=None, fod=None)\<close>
  (lines 321-337). The parent \<^verbatim>\<open>RMGObject.__init__\<close> assigns nothing: the instance starts
  with both validated attributes missing, and the four assignments run in order.
\<close>

definition CalculatedDataEntry_init ::
  "pyval \<Rightarrow> pyval \<Rightarrow> real option \<Rightarrow> real option \<Rightarrow> error + CalculatedDataEntry" where
  "CalculatedDataEntry_init conformer_arg thermo_data t1 f =
     (case CalculatedDataEntry_conformer_setter
             \<lparr>cde_conformer = Unassigned, cde_thermo_data = Unassigned,
              t1_diagnostic = None, fod = None\<rparr> conformer_arg of
        Inl e \<Rightarrow> Inl e
      | Inr self1 \<Rightarrow>
          (case CalculatedDataEntry_thermo_data_setter self1 thermo_data of
             Inl e \<Rightarrow> Inl e
           | Inr self2 \<Rightarrow> Inr (self2\<lparr>t1_diagnostic := t1, fod := f\<rparr>)))"

text \<open>The property getters: \<^verbatim>\<open>return self._thermo_data\<close> raises when the attribute is missing.\<close>

definition CalculatedDataEntry_thermo_data :: "CalculatedDataEntry \<Rightarrow> error + pyval" where
  "CalculatedDataEntry_thermo_data self =
     (case cde_thermo_data self of
        Unassigned \<Rightarrow> Inl (AttributeError ''_thermo_data'')
      | Assigned t \<Rightarrow> Inr (PThermoData t))"

definition CalculatedDataEntry_conformer :: "CalculatedDataEntry \<Rightarrow> error + Conformer option" where
  "CalculatedDataEntry_conformer self =
     (case cde_conformer self of
        Unassigned \<Rightarrow> Inl (AttributeError ''_conformer'')
      | Assigned c \<Rightarrow> Inr c)"

subsection \<open>Formatting\<close>

text \<open>\<^verbatim>\<open>'{0}'.format(n)\<close> for an integer: decimal digits, a minus sign when negative.\<close>

fun str_nat :: "nat \<Rightarrow> string" where
  "str_nat n =
     (if n < 10 then [''0123456789'' ! n]
      else str_nat (n div 10) @ [''0123456789'' ! (n mod 10)])"

declare str_nat.simps [simp del]

definition str_int :: "int \<Rightarrow> string" where
  "str_int i = (if i < 0 then CHR ''-'' # str_nat (nat (- i)) else str_nat (nat i))"

subsection \<open>ReferenceSpecies\<close>

text \<open>
  The fields that the parent \<^verbatim>\<open>ArkaneSpecies\<close> derives from the structure (\<open>smiles\<close>,
  \<open>adjacency_list\<close>, \<open>label\<close>, \<open>symmetry_number\<close>) and those of the class itself. The two
  validated dictionaries live in \<^verbatim>\<open>_reference_data\<close> and \<^verbatim>\<open>_calculated_data\<close>; the setters
  assign them only an empty dictionary or a dictionary that passed both checks, so the
  stored value is a dictionary from strings to entries whenever it is assigned.
\<close>

record ReferenceSpecies =
  smiles :: string
  adjacency_list :: string
  label :: "string option"
  symmetry_number :: "int option"
  reference_data_attr :: "(string \<times> ReferenceDataEntry) list attr"
  calculated_data_attr :: "(string \<times> CalculatedDataEntry) list attr"
  index :: "int option"
  cas_number :: "string option"
  preferred_reference :: "string option"
  default_xyz_chemistry :: "string option"

text \<open>\<^verbatim>\<open>__repr__\<close> (lines 110-116); \<^verbatim>\<open>if self.index:\<close> is false for None and for 0.\<close>

definition repr :: "ReferenceSpecies \<Rightarrow> string" where
  "repr self =
     ''<ReferenceSpecies '' @
       (case index self of
          None \<Rightarrow> smiles self
        | Some i \<Rightarrow> (if i \<noteq> 0 then smiles self @ ''('' @ str_int i @ '')'' else smiles self))
     @ ''>''"

text \<open>The \<^verbatim>\<open>isinstance\<close> tests of the setters.\<close>

fun isinstance_str :: "pyval \<Rightarrow> bool" where
  "isinstance_str (PStr s) = True"
| "isinstance_str _ = False"

fun isinstance_ReferenceDataEntry :: "pyval \<Rightarrow> bool" where
  "isinstance_ReferenceDataEntry (PReferenceDataEntry e) = True"
| "isinstance_ReferenceDataEntry _ = False"

fun isinstance_CalculatedDataEntry :: "pyval \<Rightarrow> bool" where
  "isinstance_CalculatedDataEntry (PCalculatedDataEntry e) = True"
| "isinstance_CalculatedDataEntry _ = False"

text \<open>
  Reading a validated dictionary at its stored type. The setters call these only after
  both \<^verbatim>\<open>all(...)\<close> tests have passed, so the default equations are never used.
\<close>

fun the_str :: "pyval \<Rightarrow> string" where
  "the_str (PStr s) = s"
| "the_str _ = []"

fun the_ReferenceDataEntry :: "pyval \<Rightarrow> ReferenceDataEntry" where
  "the_ReferenceDataEntry (PReferenceDataEntry e) = e"
| "the_ReferenceDataEntry _ = \<lparr>rde_thermo_data = Unassigned, atct_id = None\<rparr>"

fun the_CalculatedDataEntry :: "pyval \<Rightarrow> CalculatedDataEntry" where
  "the_CalculatedDataEntry (PCalculatedDataEntry e) = e"
| "the_CalculatedDataEntry _ =
     \<lparr>cde_conformer = Unassigned, cde_thermo_data = Unassigned, t1_diagnostic = None, fod = None\<rparr>"

text \<open>
  \<^verbatim>\<open>reference_data\<close> setter (lines 122-132). The \<^verbatim>\<open>else\<close> with the \<^verbatim>\<open>raise\<close> belongs to
  the outer \<^verbatim>\<open>if/elif\<close>; the two inner \<^verbatim>\<open>if all(...)\<close> have no \<^verbatim>\<open>else\<close>, so a non-empty
  dictionary failing either test leaves the instance as it was.
\<close>

definition reference_data_setter :: "ReferenceSpecies \<Rightarrow> pyval \<Rightarrow> error + ReferenceSpecies" where
  "reference_data_setter self v =
     (if \<not> truthy v then Inr (self\<lparr>reference_data_attr := Assigned []\<rparr>)
      else
        (case v of
           PDict kvs \<Rightarrow>
             (if list_all isinstance_str (map fst kvs) then
                (if list_all isinstance_ReferenceDataEntry (map snd kvs) then
                   Inr (self\<lparr>reference_data_attr :=
                          Assigned (map (\<lambda>(k, e). (the_str k, the_ReferenceDataEntry e)) kvs)\<rparr>)
                 else Inr self)
              else Inr self)
         | _ \<Rightarrow> Inl (ValueError (''Reference data must be given as a dictionary of the data source (string) and associated '' @
                               ''ReferenceDataEntry object''))))"

text \<open>\<^verbatim>\<open>calculated_data\<close> setter (lines 138-148), of the same shape.\<close>

definition calculated_data_setter :: "ReferenceSpecies \<Rightarrow> pyval \<Rightarrow> error + ReferenceSpecies" where
  "calculated_data_setter self v =
     (if \<not> truthy v then Inr (self\<lparr>calculated_data_attr := Assigned []\<rparr>)
      else
        (case v of
           PDict kvs \<Rightarrow>
             (if list_all isinstance_str (map fst kvs) then
                (if list_all isinstance_CalculatedDataEntry (map snd kvs) then
                   Inr (self\<lparr>calculated_data_attr :=
                          Assigned (map (\<lambda>(k, e). (the_str k, the_CalculatedDataEntry e)) kvs)\<rparr>)
                 else Inr self)
              else Inr self)
         | _ \<Rightarrow> Inl (ValueError (''Calculated data must be given as a dictionary of the model chemistry (string) and '' @
                               ''associated CalculatedDataEntry object''))))"

text \<open>The property getters (lines 118-120, 134-136): a missing attribute raises.\<close>

definition reference_data :: "ReferenceSpecies \<Rightarrow> error + (string \<times> ReferenceDataEntry) list" where
  "reference_data self =
     (case reference_data_attr self of
        Unassigned \<Rightarrow> Inl (AttributeError ''_reference_data'')
      | Assigned d \<Rightarrow> Inr d)"

definition calculated_data :: "ReferenceSpecies \<Rightarrow> error + (string \<times> CalculatedDataEntry) list" where
  "calculated_data self =
     (case calculated_data_attr self of
        Unassigned \<Rightarrow> Inl (AttributeError ''_calculated_data'')
      | Assigned d \<Rightarrow> Inr d)"

subsection \<open>get_reference_enthalpy\<close>

record ReferenceEnthalpy =
  h298 :: ScalarQuantity
  source :: string

text \<open>
  The loop of lines 250-254 over \<^verbatim>\<open>enumerate(data)\<close>, with the running \<^verbatim>\<open>uncertainty\<close>
  and \<^verbatim>\<open>preferred_source\<close>. An entry whose \<^verbatim>\<open>thermo_data\<close> is None has no \<^verbatim>\<open>H298\<close>.
\<close>

fun smallest_uncertainty_loop ::
  "string list \<Rightarrow> nat \<Rightarrow> ReferenceDataEntry list \<Rightarrow> real \<Rightarrow> string \<Rightarrow> error + string" where
  "smallest_uncertainty_loop sources i [] uncertainty preferred_source = Inr preferred_source"
| "smallest_uncertainty_loop sources i (entry # rest) uncertainty preferred_source =
     (case ReferenceDataEntry_H298 entry of
        Inl e \<Rightarrow> Inl e
      | Inr q \<Rightarrow>
          (if uncertainty_si q > 0 \<and> uncertainty_si q < uncertainty then
             (if i < length sources then
                smallest_uncertainty_loop sources (i + 1) rest (uncertainty_si q) (sources ! i)
              else Inl IndexError)
           else smallest_uncertainty_loop sources (i + 1) rest uncertainty preferred_source))"

text \<open>Lines 246-254: the branch taken when neither a source nor a preferred reference is given.\<close>

definition smallest_uncertainty_source :: "(string \<times> ReferenceDataEntry) list \<Rightarrow> error + string" where
  "smallest_uncertainty_source rd =
     (let sources = map fst rd; data = map snd rd in
      case sources of
        [] \<Rightarrow> Inl IndexError
      | s0 # _ \<Rightarrow>
          (case data of
             [] \<Rightarrow> Inl IndexError
           | d0 # _ \<Rightarrow>
               (case ReferenceDataEntry_H298 d0 of
                  Inl e \<Rightarrow> Inl e
                | Inr q0 \<Rightarrow> smallest_uncertainty_loop sources 0 data (uncertainty_si q0) s0)))"

text \<open>
  Lines 256-259: \<^verbatim>\<open>self.reference_data[preferred_source].thermo_data.H298\<close>. The second
  component of \<^verbatim>\<open>__reduce__()\<close> is the tuple of the quantity's constructor arguments; the model
  returns the quantity.
\<close>

definition lookup_reference_enthalpy ::
  "(string \<times> ReferenceDataEntry) list \<Rightarrow> string \<Rightarrow> error + ReferenceEnthalpy" where
  "lookup_reference_enthalpy rd preferred_source =
     (case map_of rd preferred_source of
        None \<Rightarrow> Inl (KeyError preferred_source)
      | Some entry \<Rightarrow>
          (case ReferenceDataEntry_H298 entry of
             Inl e \<Rightarrow> Inl e
           | Inr q \<Rightarrow> Inr \<lparr>h298 = q, source = preferred_source\<rparr>))"

text \<open>\<^verbatim>\<open>get_reference_enthalpy(self, source=None)\<close> (lines 218-259).\<close>

definition get_reference_enthalpy ::
  "ReferenceSpecies \<Rightarrow> string option \<Rightarrow> error + ReferenceEnthalpy" where
  "get_reference_enthalpy self source_arg =
     (case reference_data self of
        Inl e \<Rightarrow> Inl e
      | Inr rd \<Rightarrow>
          (if rd = [] then
             Inl (ValueError (''No reference data is included for species '' @ repr self))
           else
             (case source_arg of
                Some preferred_source \<Rightarrow> lookup_reference_enthalpy rd preferred_source
              | None \<Rightarrow>
                  (case preferred_reference self of
                     Some preferred_source \<Rightarrow> lookup_reference_enthalpy rd preferred_source
                   | None \<Rightarrow>
                       (case smallest_uncertainty_source rd of
                          Inl e \<Rightarrow> Inl e
                        | Inr preferred_source \<Rightarrow>
                            lookup_reference_enthalpy rd preferred_source)))))"

subsection \<open>get_default_xyz\<close>

record xyz_data =
  numbers :: "real list"
  coords :: "real list list"

text \<open>
  \<^verbatim>\<open>get_default_xyz\<close> (lines 261-280). \<^verbatim>\<open>if self.default_xyz_chemistry:\<close> is false for None
  and for the empty string. The product with \<^verbatim>\<open>10.0 ** 10.0\<close> is taken element by element.
\<close>

definition get_default_xyz :: "ReferenceSpecies \<Rightarrow> error + xyz_data" where
  "get_default_xyz self =
     (case default_xyz_chemistry self of
        None \<Rightarrow> Inl (ValueError
          (''The default model chemistry to use for XYZ coordinates has not been set for '' @ repr self))
      | Some chem \<Rightarrow>
          (if chem = [] then Inl (ValueError
             (''The default model chemistry to use for XYZ coordinates has not been set for '' @ repr self))
           else
             (case calculated_data self of
                Inl e \<Rightarrow> Inl e
              | Inr cd \<Rightarrow>
                  (case map_of cd chem of
                     None \<Rightarrow> Inl (KeyError chem)
                   | Some entry \<Rightarrow>
                       (case CalculatedDataEntry_conformer entry of
                          Inl e \<Rightarrow> Inl e
                        | Inr None \<Rightarrow> Inl (AttributeError ''number'')
                        | Inr (Some c) \<Rightarrow>
                            Inr \<lparr>numbers = number c,
                                 coords = map (map (\<lambda>x. x * 10 ^ 10)) (coordinates c)\<rparr>)))))"

subsection \<open>Construction\<close>

text \<open>
  The structure constructors and the parent's \<^verbatim>\<open>ArkaneSpecies.__init__\<close> are not part of
  the module; they are parameters. The parent receives the structure, the label and the
  extra keyword arguments, and returns the fields it derives.
\<close>

record ArkaneSpecies =
  arkane_smiles :: string
  arkane_adjacency_list :: string
  arkane_label :: "string option"
  arkane_symmetry_number :: "int option"

record 'sp species_services =
  Species_SMILES :: "string \<Rightarrow> error + 'sp"
  Species_InChI :: "string \<Rightarrow> error + 'sp"
  Species_fromAdjacencyList :: "string \<Rightarrow> error + 'sp"
  ArkaneSpecies_init :: "'sp \<Rightarrow> string option \<Rightarrow> (string \<times> pyval) list \<Rightarrow> error + ArkaneSpecies"

text \<open>
  The arguments of \<^verbatim>\<open>ReferenceSpecies.__init__\<close> (lines 60-62). The named parameters take
  their keywords, so \<open>arg_kwargs\<close> never holds a key \<^verbatim>\<open>species\<close>, \<^verbatim>\<open>smiles\<close>,
  \<^verbatim>\<open>adjacency_list\<close> or \<^verbatim>\<open>inchi\<close>.
\<close>

record 'sp init_args =
  arg_species :: "'sp option"
  arg_smiles :: "string option"
  arg_adjacency_list :: "string option"
  arg_inchi :: "string option"
  arg_reference_data :: pyval
  arg_calculated_data :: pyval
  arg_preferred_reference :: "string option"
  arg_index :: "int option"
  arg_label :: "string option"
  arg_cas_number :: "string option"
  arg_symmetry_number :: "int option"
  arg_default_xyz_chemistry :: "string option"
  arg_kwargs :: "(string \<times> pyval) list"

text \<open>\<^verbatim>\<open>if smiles:\<close> on an optional string: the string when it is given and not empty.\<close>

fun given :: "string option \<Rightarrow> string option" where
  "given None = None"
| "given (Some s) = (if s = [] then None else Some s)"

text \<open>Lines 86-95: the structure, from the first identity source that is given.\<close>

definition identity_species :: "'sp species_services \<Rightarrow> 'sp init_args \<Rightarrow> error + 'sp" where
  "identity_species services args =
     (case arg_species args of
        Some sp \<Rightarrow> Inr sp
      | None \<Rightarrow>
          (case given (arg_smiles args) of
             Some s \<Rightarrow> Species_SMILES services s
           | None \<Rightarrow>
               (case given (arg_inchi args) of
                  Some s \<Rightarrow> Species_InChI services s
                | None \<Rightarrow>
                    (case given (arg_adjacency_list args) of
                       Some s \<Rightarrow> Species_fromAdjacencyList services s
                     | None \<Rightarrow> Inl (ValueError
                         (''Either an rmgpy species object, smiles string, InChI string, or an adjacency list '' @
                          ''must be given to create a ReferenceSpecies object''))))))"

text \<open>
  \<^verbatim>\<open>ReferenceSpecies.__init__\<close> (lines 86-108). After the parent's initialiser the two
  dictionary attributes do not exist yet; the two setters run next, then the plain
  assignments. \<^verbatim>\<open>if symmetry_number:\<close> is false for None and for 0.
\<close>

definition ReferenceSpecies_init ::
  "'sp species_services \<Rightarrow> 'sp init_args \<Rightarrow> error + ReferenceSpecies" where
  "ReferenceSpecies_init services args =
     (case identity_species services args of
        Inl e \<Rightarrow> Inl e
      | Inr sp \<Rightarrow>
          (case ArkaneSpecies_init services sp (arg_label args) (arg_kwargs args) of
             Inl e \<Rightarrow> Inl e
           | Inr a \<Rightarrow>
               (case reference_data_setter
                       \<lparr>smiles = arkane_smiles a, adjacency_list = arkane_adjacency_list a,
                        label = arkane_label a, symmetry_number = arkane_symmetry_number a,
                        reference_data_attr = Unassigned, calculated_data_attr = Unassigned,
                        index = None, cas_number = None, preferred_reference = None,
                        default_xyz_chemistry = None\<rparr>
                       (arg_reference_data args) of
                  Inl e \<Rightarrow> Inl e
                | Inr self1 \<Rightarrow>
                    (case calculated_data_setter self1 (arg_calculated_data args) of
                       Inl e \<Rightarrow> Inl e
                     | Inr self2 \<Rightarrow>
                         Inr (self2\<lparr>index := arg_index args,
                                    cas_number := arg_cas_number args,
                                    preferred_reference := arg_preferred_reference args,
                                    default_xyz_chemistry := arg_default_xyz_chemistry args,
                                    symmetry_number :=
                                      (case arg_symmetry_number args of
                                         None \<Rightarrow> symmetry_number self2
                                       | Some n \<Rightarrow>
                                           (if n \<noteq> 0 then Some n
                                            else symmetry_number self2))\<rparr>)))))"

subsection \<open>ReferenceDatabase\<close>

record ReferenceDatabase =
  reference_sets :: "string \<Rightarrow> ReferenceSpecies list option"

text \<open>\<^verbatim>\<open>ReferenceDatabase.__init__\<close> (line 378).\<close>

definition ReferenceDatabase_init :: ReferenceDatabase where
  "ReferenceDatabase_init = \<lparr>reference_sets = Map.empty\<rparr>"

text \<open>
  \<^verbatim>\<open>get_species_from_index\<close> (lines 478-505). The argument is a list of integers, or one
  integer, which line 490 wraps in a list; \<^verbatim>\<open>int(index)\<close> is not called on an integer.
  The inner \<^verbatim>\<open>for\<close> with \<^verbatim>\<open>break\<close> finds the first species of the set with the index.
\<close>

datatype indices_arg = Index int | Indices "int list"

fun first_with_index :: "int \<Rightarrow> ReferenceSpecies list \<Rightarrow> ReferenceSpecies option" where
  "first_with_index i [] = None"
| "first_with_index i (ref_spcs # rest) =
     (if index ref_spcs = Some i then Some ref_spcs else first_with_index i rest)"

fun get_species_from_index_loop ::
  "string \<Rightarrow> ReferenceSpecies list \<Rightarrow> int list \<Rightarrow> ReferenceSpecies list
     \<Rightarrow> error + ReferenceSpecies list" where
  "get_species_from_index_loop set_name search_set [] reference_species_list =
     Inr reference_species_list"
| "get_species_from_index_loop set_name search_set (i # rest) reference_species_list =
     (case first_with_index i search_set of
        Some ref_spcs \<Rightarrow>
          get_species_from_index_loop set_name search_set rest (reference_species_list @ [ref_spcs])
      | None \<Rightarrow>
          Inl (ValueError (''No reference species with index '' @ str_int i @
                           '' was found in reference set '' @ set_name)))"

definition get_species_from_index ::
  "ReferenceDatabase \<Rightarrow> indices_arg \<Rightarrow> string \<Rightarrow> error + ReferenceSpecies list" where
  "get_species_from_index self indices set_name =
     (case reference_sets self set_name of
        None \<Rightarrow> Inl (KeyError set_name)
      | Some search_set \<Rightarrow>
          get_species_from_index_loop set_name search_set
            (case indices of Index i \<Rightarrow> [i] | Indices is \<Rightarrow> is) [])"

subsection \<open>Loading reference sets\<close>

text \<open>
  What \<^verbatim>\<open>load\<close> reaches outside the module: the configured database directory, the
  directory listing, \<^verbatim>\<open>load_yaml\<close> on a fresh instance (deserialisation through the
  parent's \<^verbatim>\<open>make_object\<close>), the structure parser and the isomorphism test.
\<close>

record 'm environment =
  database_directory :: string
  listdir :: "string \<Rightarrow> error + string list"
  load_yaml :: "string \<Rightarrow> error + ReferenceSpecies"
  Molecule_fromAdjacencyList :: "string \<Rightarrow> error + 'm"
  isIsomorphic :: "'m \<Rightarrow> 'm \<Rightarrow> bool"

datatype log_record = Info string | Warning string

datatype paths_arg = PathStr string | PathList "string list"

text \<open>\<^verbatim>\<open>os.path.basename\<close> and \<^verbatim>\<open>os.path.join\<close> of two components (POSIX).\<close>

definition basename :: "string \<Rightarrow> string" where
  "basename p = rev (takeWhile (\<lambda>c. c \<noteq> CHR ''/'') (rev p))"

definition path_join :: "string \<Rightarrow> string \<Rightarrow> string" where
  "path_join a b =
     (if b \<noteq> [] \<and> hd b = CHR ''/'' then b
      else if a = [] \<or> last a = CHR ''/'' then a @ b
      else a @ ''/'' @ b)"

definition no_data_warning :: "ReferenceSpecies \<Rightarrow> string \<Rightarrow> log_record" where
  "no_data_warning ref_spcs set_name =
     Warning (''Molecule '' @ smiles ref_spcs @ '' from reference set `'' @ set_name @
              ''` does not have any reference data and/or '' @
              ''calculated data. This entry will not be added'')"

definition duplicate_warning :: "ReferenceSpecies \<Rightarrow> string \<Rightarrow> string \<Rightarrow> log_record" where
  "duplicate_warning ref_spcs set_name spcs =
     Warning (''Molecule '' @ smiles ref_spcs @ '' from reference set `'' @ set_name @
              ''` already exists in the reference '' @
              ''database. The entry from this reference set will not be added. The path for '' @
              ''this species is '' @ spcs)"

text \<open>
  The inner loop of \<^verbatim>\<open>load\<close> (lines 402-419) over the files of one directory. The state
  is \<^verbatim>\<open>molecule_list\<close>, \<^verbatim>\<open>reference_set\<close> and the log. \<^verbatim>\<open>or\<close> does not read
  \<^verbatim>\<open>reference_data\<close> when \<^verbatim>\<open>calculated_data\<close> is empty. An exception leaves the loop with
  the exception only.
\<close>

fun load_spcs_files ::
  "'m environment \<Rightarrow> string \<Rightarrow> string \<Rightarrow> string list
     \<Rightarrow> 'm list \<times> ReferenceSpecies list \<times> log_record list
     \<Rightarrow> error + ('m list \<times> ReferenceSpecies list \<times> log_record list)" where
  "load_spcs_files env path set_name [] st = Inr st"
| "load_spcs_files env path set_name (spcs # rest) (molecule_list, reference_set, logging) =
     (case load_yaml env (path_join path spcs) of
        Inl e \<Rightarrow> Inl e
      | Inr ref_spcs \<Rightarrow>
          (case Molecule_fromAdjacencyList env (adjacency_list ref_spcs) of
             Inl e \<Rightarrow> Inl e
           | Inr molecule \<Rightarrow>
               (case calculated_data ref_spcs of
                  Inl e \<Rightarrow> Inl e
                | Inr cd \<Rightarrow>
                    (if length cd = 0 then
                       load_spcs_files env path set_name rest
                         (molecule_list, reference_set,
                          logging @ [no_data_warning ref_spcs set_name])
                     else
                       (case reference_data ref_spcs of
                          Inl e \<Rightarrow> Inl e
                        | Inr rd \<Rightarrow>
                            (if length rd = 0 then
                               load_spcs_files env path set_name rest
                                 (molecule_list, reference_set,
                                  logging @ [no_data_warning ref_spcs set_name])
                             else if list_ex (isIsomorphic env molecule) molecule_list then
                               load_spcs_files env path set_name rest
                                 (molecule_list, reference_set,
                                  logging @ [duplicate_warning ref_spcs set_name spcs])
                             else
                               load_spcs_files env path set_name rest
                                 (molecule_list @ [molecule], reference_set @ [ref_spcs],
                                  logging)))))))"

text \<open>
  The outer loop (lines 397-421) over the paths: \<^verbatim>\<open>molecule_list\<close> is carried from one
  path to the next, \<^verbatim>\<open>reference_set\<close> starts empty for each, and line 421 assigns
  \<^verbatim>\<open>self.reference_sets[set_name]\<close>.
\<close>

fun load_paths ::
  "'m environment \<Rightarrow> string list \<Rightarrow> 'm list \<times> ReferenceDatabase \<times> log_record list
     \<Rightarrow> error + ('m list \<times> ReferenceDatabase \<times> log_record list)" where
  "load_paths env [] st = Inr st"
| "load_paths env (path # rest) (molecule_list, self, logging) =
     (case listdir env path of
        Inl e \<Rightarrow> Inl e
      | Inr spcs_files \<Rightarrow>
          (case load_spcs_files env path (basename path) spcs_files
                  (molecule_list, [],
                   logging @ [Info (''Loading in reference set `'' @ basename path @
                                    ''` from '' @ path @ '' ...'')]) of
             Inl e \<Rightarrow> Inl e
           | Inr (molecule_list', reference_set, logging') \<Rightarrow>
               load_paths env rest
                 (molecule_list',
                  self\<lparr>reference_sets := (reference_sets self)(basename path \<mapsto> reference_set)\<rparr>,
                  logging')))"

text \<open>
  Lines 390-394 of \<^verbatim>\<open>load(self, paths='')\<close>: an empty string or list stands for the main
  reference set of the database directory, a string for the list holding it.
\<close>

definition effective_paths :: "'m environment \<Rightarrow> paths_arg \<Rightarrow> string list" where
  "effective_paths env paths =
     (case (if paths = PathStr [] \<or> paths = PathList [] then
              PathList [path_join (database_directory env) ''reference_sets/main'']
            else paths) of
        PathStr p \<Rightarrow> [p]
      | PathList ps \<Rightarrow> ps)"

text \<open>
  \<^verbatim>\<open>load\<close> (lines 380-421). The result is the database and the log after the call.
\<close>

definition load ::
  "'m environment \<Rightarrow> ReferenceDatabase \<Rightarrow> paths_arg \<Rightarrow> log_record list
     \<Rightarrow> error + (ReferenceDatabase \<times> log_record list)" where
  "load env self paths logging =
     (case load_paths env (effective_paths env paths) ([], self, logging) of
        Inl e \<Rightarrow> Inl e
      | Inr (molecule_list, self', logging') \<Rightarrow> Inr (self', logging'))"

subsection \<open>Vocabulary of the statements\<close>

fun isinstance_dict :: "pyval \<Rightarrow> bool" where
  "isinstance_dict (PDict kvs) = True"
| "isinstance_dict _ = False"

text \<open>
  One file met by \<^verbatim>\<open>load\<close>: the set it belongs to, its name, the species
  \<^verbatim>\<open>load_yaml\<close> makes of it and the structure \<^verbatim>\<open>Molecule().fromAdjacencyList\<close> makes of
  that species' adjacency list.
\<close>

record 'm encountered =
  enc_set_name :: string
  enc_file :: string
  enc_spcs :: ReferenceSpecies
  enc_molecule :: 'm

text \<open>
  What one pass of the inner loop needs in order not to raise: the file deserialises, the
  adjacency list of the species parses, \<^verbatim>\<open>_calculated_data\<close> is assigned, and
  \<^verbatim>\<open>_reference_data\<close> is assigned unless the calculated data is empty (the \<^verbatim>\<open>or\<close> does not
  read it then). The entry carries the set name of its path. A directory is loaded when
  its listing succeeds and every listed file is.
\<close>

definition file_loaded :: "'m environment \<Rightarrow> string \<Rightarrow> 'm encountered \<Rightarrow> bool" where
  "file_loaded env path e \<longleftrightarrow>
     enc_set_name e = basename path \<and>
     load_yaml env (path_join path (enc_file e)) = Inr (enc_spcs e) \<and>
     Molecule_fromAdjacencyList env (adjacency_list (enc_spcs e)) = Inr (enc_molecule e) \<and>
     calculated_data_attr (enc_spcs e) \<noteq> Unassigned \<and>
     (calculated_data_attr (enc_spcs e) = Assigned [] \<or>
      reference_data_attr (enc_spcs e) \<noteq> Unassigned)"

definition directory_loaded :: "'m environment \<Rightarrow> string \<Rightarrow> 'm encountered list \<Rightarrow> bool" where
  "directory_loaded env path es \<longleftrightarrow>
     listdir env path = Inr (map enc_file es) \<and> list_all (file_loaded env path) es"

definition has_no_data :: "ReferenceSpecies \<Rightarrow> bool" where
  "has_no_data s \<longleftrightarrow> calculated_data_attr s = Assigned [] \<or> reference_data_attr s = Assigned []"

fun is_Warning :: "log_record \<Rightarrow> bool" where
  "is_Warning (Warning m) = True"
| "is_Warning (Info m) = False"

text \<open>
  The entries a run of the loops keeps, as a function of the entries met and of the
  structures already kept; the proofs relate the loops to it.
\<close>

fun accepted ::
  "('m \<Rightarrow> 'm \<Rightarrow> bool) \<Rightarrow> 'm list \<Rightarrow> 'm encountered list \<Rightarrow> 'm encountered list" where
  "accepted isom seen [] = []"
| "accepted isom seen (e # es) =
     (if has_no_data (enc_spcs e) \<or> list_ex (isom (enc_molecule e)) seen
      then accepted isom seen es
      else e # accepted isom (seen @ [enc_molecule e]) es)"


subsection \<open>Example inputs\<close>

definition entry_with_uncertainty :: "real \<Rightarrow> real \<Rightarrow> ReferenceDataEntry" where
  "entry_with_uncertainty h u =
     \<lparr>rde_thermo_data =
        Assigned (Some \<lparr>H298 = \<lparr>value_si = h, uncertainty_si = u, units = ''J/mol''\<rparr>\<rparr>),
      atct_id = None\<rparr>"

definition species_with :: "(string \<times> ReferenceDataEntry) list \<Rightarrow> ReferenceSpecies" where
  "species_with rd =
     \<lparr>smiles = ''C'', adjacency_list = ''1 C u0 p0 c0'', label = None, symmetry_number = None,
      reference_data_attr = Assigned rd, calculated_data_attr = Assigned [],
      index = None, cas_number = None, preferred_reference = None,
      default_xyz_chemistry = None\<rparr>"

text \<open>Three sources with H298 uncertainties 0, 5 and 2, in the dictionary's order.\<close>

definition three_sources :: ReferenceSpecies where
  "three_sources = species_with
     [(''A'', entry_with_uncertainty 1 0), (''B'', entry_with_uncertainty 2 5),
      (''C'', entry_with_uncertainty 3 2)]"

definition methane_conformer :: Conformer where
  "methane_conformer =
     \<lparr>number = [6, 1], coordinates = [[0, 0, 0], [1 / 10 ^ 10, 0, 2 / 10 ^ 10]]\<rparr>"

definition species_with_geometry :: ReferenceSpecies where
  "species_with_geometry =
     (species_with [])\<lparr>calculated_data_attr :=
        Assigned [(''wb97m-v/def2-tzvpd'',
          \<lparr>cde_conformer = Assigned (Some methane_conformer), cde_thermo_data = Unassigned,
           t1_diagnostic = None, fod = None\<rparr>)],
        default_xyz_chemistry := Some ''wb97m-v/def2-tzvpd''\<rparr>"

text \<open>Structure services that accept every string, the structure being the string.\<close>

definition example_services :: "string species_services" where
  "example_services =
     \<lparr>Species_SMILES = Inr, Species_InChI = Inr, Species_fromAdjacencyList = Inr,
      ArkaneSpecies_init = (\<lambda>sp l kwargs.
         Inr \<lparr>arkane_smiles = sp, arkane_adjacency_list = sp, arkane_label = l,
              arkane_symmetry_number = Some 1\<rparr>)\<rparr>"

definition no_args :: "string init_args" where
  "no_args =
     \<lparr>arg_species = None, arg_smiles = None, arg_adjacency_list = None, arg_inchi = None,
      arg_reference_data = PNone, arg_calculated_data = PNone, arg_preferred_reference = None,
      arg_index = None, arg_label = None, arg_cas_number = None, arg_symmetry_number = None,
      arg_default_xyz_chemistry = None, arg_kwargs = []\<rparr>"

definition indexed_species :: "int \<Rightarrow> ReferenceSpecies" where
  "indexed_species i = (species_with [])\<lparr>index := Some i\<rparr>"

definition indexed_database :: ReferenceDatabase where
  "indexed_database =
     \<lparr>reference_sets = [''main'' \<mapsto> [indexed_species 1, indexed_species 2, indexed_species 3]]\<rparr>"

definition species_with_data :: "string \<Rightarrow> string \<Rightarrow> ReferenceSpecies" where
  "species_with_data smi adj =
     \<lparr>smiles = smi, adjacency_list = adj, label = None, symmetry_number = None,
      reference_data_attr = Assigned [(''ATcT'', entry_with_uncertainty 1 1)],
      calculated_data_attr = Assigned [(''wb97m-v/def2-tzvpd'',
          \<lparr>cde_conformer = Assigned None, cde_thermo_data = Unassigned,
           t1_diagnostic = None, fod = None\<rparr>)],
      index = None, cas_number = None, preferred_reference = None,
      default_xyz_chemistry = None\<rparr>"

text \<open>
  A file system given by two tables; the structure of a species is its adjacency list and
  two structures are isomorphic when the lists are equal.
\<close>

definition example_environment ::
  "(string \<times> string list) list \<Rightarrow> (string \<times> ReferenceSpecies) list \<Rightarrow> string environment" where
  "example_environment directories files =
     \<lparr>database_directory = ''/database'',
      listdir = (\<lambda>p. case map_of directories p of None \<Rightarrow> Inl (OSError p) | Some fs \<Rightarrow> Inr fs),
      load_yaml = (\<lambda>f. case map_of files f of None \<Rightarrow> Inl (OSError f) | Some s \<Rightarrow> Inr s),
      Molecule_fromAdjacencyList = Inr,
      isIsomorphic = (=)\<rparr>"

text \<open>Two directories with the same final segment, each holding methane.\<close>

definition colliding_sets :: "string environment" where
  "colliding_sets = example_environment
     [(''a/main'', [''0.yml'']), (''b/main'', [''0.yml''])]
     [(''a/main/0.yml'', species_with_data ''C'' ''1 C u0 p0 c0''),
      (''b/main/0.yml'', species_with_data ''C'' ''1 C u0 p0 c0'')]"

text \<open>
  Two sets: \<^verbatim>\<open>main\<close> holds methane, methane again and a species without calculated data;
  \<^verbatim>\<open>extra\<close> holds methane once more and water.
\<close>

definition two_sets :: "string environment" where
  "two_sets = example_environment
     [(''sets/main'', [''0.yml'', ''1.yml'', ''2.yml'']), (''sets/extra'', [''0.yml'', ''1.yml''])]
     [(''sets/main/0.yml'', species_with_data ''C'' ''1 C u0 p0 c0''),
      (''sets/main/1.yml'', (species_with_data ''C'' ''1 C u0 p0 c0'')\<lparr>index := Some 7\<rparr>),
      (''sets/main/2.yml'',
         (species_with_data ''CC'' ''1 C u0 p0 c0 {2,S}'')\<lparr>calculated_data_attr := Assigned []\<rparr>),
      (''sets/extra/0.yml'', species_with_data ''C'' ''1 C u0 p0 c0''),
      (''sets/extra/1.yml'', species_with_data ''O'' ''1 O u0 p2 c0'')]"

text \<open>
  One set holding methane twice; the second species never had \<^verbatim>\<open>_reference_data\<close>
  assigned.
\<close>

definition half_built_set :: "string environment" where
  "half_built_set = example_environment
     [(''sets/main'', [''0.yml'', ''1.yml''])]
     [(''sets/main/0.yml'', species_with_data ''C'' ''1 C u0 p0 c0''),
      (''sets/main/1.yml'',
         (species_with_data ''C'' ''1 C u0 p0 c0'')\<lparr>reference_data_attr := Unassigned\<rparr>)]"

definition two_sets_encountered :: "string encountered list list" where
  "two_sets_encountered =
     [[\<lparr>enc_set_name = ''main'', enc_file = ''0.yml'',
        enc_spcs = species_with_data ''C'' ''1 C u0 p0 c0'', enc_molecule = ''1 C u0 p0 c0''\<rparr>,
       \<lparr>enc_set_name = ''main'', enc_file = ''1.yml'',
        enc_spcs = (species_with_data ''C'' ''1 C u0 p0 c0'')\<lparr>index := Some 7\<rparr>,
        enc_molecule = ''1 C u0 p0 c0''\<rparr>,
       \<lparr>enc_set_name = ''main'', enc_file = ''2.yml'',
        enc_spcs =
          (species_with_data ''CC'' ''1 C u0 p0 c0 {2,S}'')\<lparr>calculated_data_attr := Assigned []\<rparr>,
        enc_molecule = ''1 C u0 p0 c0 {2,S}''\<rparr>],
      [\<lparr>enc_set_name = ''extra'', enc_file = ''0.yml'',
        enc_spcs = species_with_data ''C'' ''1 C u0 p0 c0'', enc_molecule = ''1 C u0 p0 c0''\<rparr>,
       \<lparr>enc_set_name = ''extra'', enc_file = ''1.yml'',
        enc_spcs = species_with_data ''O'' ''1 O u0 p2 c0'', enc_molecule = ''1 O u0 p2 c0''\<rparr>]]"


section \<open>Properties\<close>

subsection \<open>Entries built with no thermochemistry\<close>

text \<open>
  Claim C9. A \<^verbatim>\<open>CalculatedDataEntry\<close> built with \<^verbatim>\<open>thermo_data\<close> None, or any falsy
  value, has no \<^verbatim>\<open>_thermo_data\<close> attribute, and reading \<^verbatim>\<open>thermo_data\<close> raises
  AttributeError; a \<^verbatim>\<open>ReferenceDataEntry\<close> built with the same value stores None and
  reads None back. The conformer given to the first is valid: falsy, or a Conformer.
\<close>

theorem thermo_data_None_differs:
  assumes "\<not> truthy v" and "\<not> truthy c \<or> (\<exists>conf. c = PConformer conf)"
  shows "(\<exists>e. CalculatedDataEntry_init c v t1 f = Inr e \<and> cde_thermo_data e = Unassigned \<and>
              CalculatedDataEntry_thermo_data e = Inl (AttributeError ''_thermo_data'')) \<and>
         (\<exists>e'. ReferenceDataEntry_init v a = Inr e' \<and> rde_thermo_data e' = Assigned None \<and>
              ReferenceDataEntry_thermo_data e' = Inr PNone)"
  using assms
  by (auto simp: CalculatedDataEntry_init_def CalculatedDataEntry_conformer_setter_def
      CalculatedDataEntry_thermo_data_setter_def CalculatedDataEntry_thermo_data_def
      ReferenceDataEntry_init_def ReferenceDataEntry_thermo_data_setter_def
      ReferenceDataEntry_thermo_data_def)

theorem thermo_data_None_differs_witness:
  "(\<exists>e. CalculatedDataEntry_init (PConformer methane_conformer) PNone None None = Inr e \<and>
        cde_thermo_data e = Unassigned \<and>
        CalculatedDataEntry_thermo_data e = Inl (AttributeError ''_thermo_data'')) \<and>
   (\<exists>e'. ReferenceDataEntry_init PNone None = Inr e' \<and> rde_thermo_data e' = Assigned None \<and>
        ReferenceDataEntry_thermo_data e' = Inr PNone)"
  using thermo_data_None_differs [of PNone "PConformer methane_conformer" None None None]
  by simp

subsection \<open>Choosing the source of a reference enthalpy\<close>

lemma get_reference_enthalpy_explicit:
  assumes "reference_data_attr self = Assigned rd" and "rd \<noteq> []"
  shows "get_reference_enthalpy self (Some src) = lookup_reference_enthalpy rd src"
  using assms by (simp add: get_reference_enthalpy_def reference_data_def)

lemma get_reference_enthalpy_preferred:
  assumes "reference_data_attr self = Assigned rd" and "rd \<noteq> []"
    and "preferred_reference self = Some p"
  shows "get_reference_enthalpy self None = lookup_reference_enthalpy rd p"
  using assms by (simp add: get_reference_enthalpy_def reference_data_def)

lemma get_reference_enthalpy_fallback:
  assumes "reference_data_attr self = Assigned rd" and "rd \<noteq> []"
    and "preferred_reference self = None"
  shows "get_reference_enthalpy self None =
     (case smallest_uncertainty_source rd of
        Inl e \<Rightarrow> Inl e
      | Inr s \<Rightarrow> lookup_reference_enthalpy rd s)"
  using assms by (simp add: get_reference_enthalpy_def reference_data_def)

lemma lookup_reference_enthalpy_Inr:
  "lookup_reference_enthalpy rd src = Inr r \<longleftrightarrow>
     (\<exists>e td. map_of rd src = Some e \<and> rde_thermo_data e = Assigned (Some td) \<and>
        r = \<lparr>h298 = H298 td, source = src\<rparr>)"
  by (auto simp: lookup_reference_enthalpy_def ReferenceDataEntry_H298_def
      split: option.splits attr.splits)

text \<open>
  The running minimum starts at the first entry's uncertainty and is replaced only by a
  positive, strictly smaller one: when the first uncertainty is zero or negative, no
  entry replaces it and the first source stays.
\<close>

lemma smallest_uncertainty_loop_nonpositive:
  "uncertainty \<le> 0 \<Longrightarrow> \<forall>e\<in>set data. \<exists>q. ReferenceDataEntry_H298 e = Inr q \<Longrightarrow>
   smallest_uncertainty_loop sources i data uncertainty preferred_source = Inr preferred_source"
  by (induction data arbitrary: i) auto

lemma smallest_uncertainty_source_nonpositive:
  assumes "ReferenceDataEntry_H298 d0 = Inr q0" and "uncertainty_si q0 \<le> 0"
    and "\<forall>e\<in>set (map snd rest). \<exists>q. ReferenceDataEntry_H298 e = Inr q"
  shows "smallest_uncertainty_source ((s0, d0) # rest) = Inr s0"
proof -
  have "\<forall>e\<in>set (d0 # map snd rest). \<exists>q. ReferenceDataEntry_H298 e = Inr q"
    using assms(1,3) by simp
  from smallest_uncertainty_loop_nonpositive [OF assms(2) this, of "s0 # map fst rest" 0 s0]
  show ?thesis
    using assms(1) by (simp add: smallest_uncertainty_source_def)
qed

text \<open>
  Claim C1, at the spec's own example: three sources with H298 uncertainties 0, 5 and 2
  in the dictionary's order, no \<^verbatim>\<open>source\<close> argument and no \<^verbatim>\<open>preferred_reference\<close>.
  \<^verbatim>\<open>get_reference_enthalpy\<close> returns the first source, the one with uncertainty 0, not
  the source with uncertainty 2.
\<close>

theorem three_sources_selects_first:
  "get_reference_enthalpy three_sources None =
     Inr \<lparr>h298 = \<lparr>value_si = 1, uncertainty_si = 0, units = ''J/mol''\<rparr>, source = ''A''\<rparr>"
  by (simp add: get_reference_enthalpy_def three_sources_def species_with_def reference_data_def
      smallest_uncertainty_source_def lookup_reference_enthalpy_def entry_with_uncertainty_def
      ReferenceDataEntry_H298_def)

text \<open>
  Claim C2. With reference data present, an explicit \<^verbatim>\<open>source\<close> is the key looked up,
  whatever \<^verbatim>\<open>preferred_reference\<close> and the uncertainties are; with no \<^verbatim>\<open>source\<close>, a set
  \<^verbatim>\<open>preferred_reference\<close> is the key looked up; the search by uncertainty runs only when
  both are absent. When the key holds thermochemistry the call returns that key as the
  source, with its H298.
\<close>

theorem source_priority:
  assumes "reference_data_attr self = Assigned rd" and "rd \<noteq> []"
  shows "(\<forall>src. get_reference_enthalpy self (Some src) = lookup_reference_enthalpy rd src) \<and>
         (\<forall>src e td. map_of rd src = Some e \<and> rde_thermo_data e = Assigned (Some td) \<longrightarrow>
            get_reference_enthalpy self (Some src) = Inr \<lparr>h298 = H298 td, source = src\<rparr>) \<and>
         (\<forall>p. preferred_reference self = Some p \<longrightarrow>
            get_reference_enthalpy self None = lookup_reference_enthalpy rd p) \<and>
         (\<forall>p e td. preferred_reference self = Some p \<and> map_of rd p = Some e \<and>
              rde_thermo_data e = Assigned (Some td) \<longrightarrow>
            get_reference_enthalpy self None = Inr \<lparr>h298 = H298 td, source = p\<rparr>) \<and>
         (preferred_reference self = None \<longrightarrow>
            get_reference_enthalpy self None =
              (case smallest_uncertainty_source rd of
                 Inl e \<Rightarrow> Inl e
               | Inr s \<Rightarrow> lookup_reference_enthalpy rd s))"
  using assms
  by (auto simp: get_reference_enthalpy_explicit get_reference_enthalpy_preferred
      get_reference_enthalpy_fallback lookup_reference_enthalpy_Inr)

theorem source_priority_witness:
  "get_reference_enthalpy (three_sources\<lparr>preferred_reference := Some ''B''\<rparr>) (Some ''C'') =
     Inr \<lparr>h298 = \<lparr>value_si = 3, uncertainty_si = 2, units = ''J/mol''\<rparr>, source = ''C''\<rparr> \<and>
   get_reference_enthalpy (three_sources\<lparr>preferred_reference := Some ''B''\<rparr>) None =
     Inr \<lparr>h298 = \<lparr>value_si = 2, uncertainty_si = 5, units = ''J/mol''\<rparr>, source = ''B''\<rparr>"
  using source_priority [of "three_sources\<lparr>preferred_reference := Some ''B''\<rparr>"
      "[(''A'', entry_with_uncertainty 1 0), (''B'', entry_with_uncertainty 2 5),
        (''C'', entry_with_uncertainty 3 2)]"]
  by (simp add: three_sources_def species_with_def entry_with_uncertainty_def
      lookup_reference_enthalpy_def ReferenceDataEntry_H298_def)

text \<open>
  Claim C10. With reference data present, an explicit \<^verbatim>\<open>source\<close> that is not a key of
  \<^verbatim>\<open>reference_data\<close> raises KeyError, whatever \<^verbatim>\<open>preferred_reference\<close> is; and for every
  explicit source the outcome is the lookup of that very key, so neither the preferred
  reference nor the search by uncertainty takes part.
\<close>

theorem unknown_source_KeyError:
  assumes "reference_data_attr self = Assigned rd" and "rd \<noteq> []" and "src \<notin> fst ` set rd"
  shows "get_reference_enthalpy self (Some src) = Inl (KeyError src) \<and>
         (\<forall>p. get_reference_enthalpy (self\<lparr>preferred_reference := p\<rparr>) (Some src) =
                Inl (KeyError src)) \<and>
         (\<forall>p src'. get_reference_enthalpy (self\<lparr>preferred_reference := p\<rparr>) (Some src') =
                lookup_reference_enthalpy rd src')"
proof -
  have "map_of rd src = None"
    using assms(3) by (simp add: map_of_eq_None_iff)
  then have k: "lookup_reference_enthalpy rd src = Inl (KeyError src)"
    by (simp add: lookup_reference_enthalpy_def)
  have e: "get_reference_enthalpy (self\<lparr>preferred_reference := p\<rparr>) (Some s) =
      lookup_reference_enthalpy rd s" for p s
    using assms(1,2) by (simp add: get_reference_enthalpy_explicit)
  show ?thesis
    using k e assms(1,2) by (simp add: get_reference_enthalpy_explicit)
qed

theorem unknown_source_KeyError_witness:
  "get_reference_enthalpy three_sources (Some ''NIST'') = Inl (KeyError ''NIST'') \<and>
   get_reference_enthalpy (three_sources\<lparr>preferred_reference := Some ''B''\<rparr>) (Some ''NIST'') =
     Inl (KeyError ''NIST'')"
  using unknown_source_KeyError [of three_sources
      "[(''A'', entry_with_uncertainty 1 0), (''B'', entry_with_uncertainty 2 5),
        (''C'', entry_with_uncertainty 3 2)]" "''NIST''"]
  by (simp add: three_sources_def species_with_def lookup_reference_enthalpy_def)

subsection \<open>The validated dictionaries\<close>

lemmas setter_defs = reference_data_setter_def calculated_data_setter_def

lemma setter_non_dict:
  assumes "truthy v" and "\<not> isinstance_dict v"
  shows "reference_data_setter self v =
           Inl (ValueError (''Reference data must be given as a dictionary of the data source (string) and associated '' @
                            ''ReferenceDataEntry object''))"
    and "calculated_data_setter self v =
           Inl (ValueError (''Calculated data must be given as a dictionary of the model chemistry (string) and '' @
                            ''associated CalculatedDataEntry object''))"
  using assms by (cases v; simp add: setter_defs)+

lemma reference_data_setter_cases:
  "(\<exists>m. reference_data_setter self v = Inl (ValueError m)) \<or>
   (\<exists>s. reference_data_setter self v = Inr s)"
  by (cases "reference_data_setter self v"; cases v; auto simp: setter_defs split: if_splits)

text \<open>A falsy value gives the empty dictionary, and an assigned attribute stays assigned.\<close>

lemma setter_falsy:
  assumes "\<not> truthy v"
  shows "reference_data_setter self v = Inr (self\<lparr>reference_data_attr := Assigned []\<rparr>)"
    and "calculated_data_setter self v = Inr (self\<lparr>calculated_data_attr := Assigned []\<rparr>)"
  using assms by (simp_all add: setter_defs)

lemma setter_keeps_assigned:
  "reference_data_attr self \<noteq> Unassigned \<Longrightarrow> reference_data_setter self v = Inr self' \<Longrightarrow>
     reference_data_attr self' \<noteq> Unassigned"
  "calculated_data_attr self \<noteq> Unassigned \<Longrightarrow> calculated_data_setter self v = Inr self' \<Longrightarrow>
     calculated_data_attr self' \<noteq> Unassigned"
  by (cases v; auto simp: setter_defs split: if_splits)+

text \<open>
  Claim C3 does not hold as stated: an empty list, which is not a mapping, is accepted
  and stored as the empty dictionary; a dictionary with an integer key, and a dictionary
  whose value is not an entry of the right kind, are accepted too and leave the instance
  as it was.
\<close>

theorem setters_accept_counterexample:
  "reference_data_setter three_sources (PList []) =
     Inr (three_sources\<lparr>reference_data_attr := Assigned []\<rparr>) \<and>
   reference_data_setter three_sources
       (PDict [(PInt 1, PReferenceDataEntry (entry_with_uncertainty 1 1))]) =
     Inr three_sources \<and>
   reference_data_setter three_sources (PDict [(PStr ''ATcT'', PInt 5)]) = Inr three_sources \<and>
   calculated_data_setter three_sources
       (PDict [(PStr ''ATcT'', PReferenceDataEntry (entry_with_uncertainty 1 1))]) =
     Inr three_sources"
  by (simp add: setter_defs)

text \<open>
  Claim C3, amended. A value that is truthy (not None, not empty) and not a dictionary
  makes the assignment to \<^verbatim>\<open>reference_data\<close> or to \<^verbatim>\<open>calculated_data\<close> raise ValueError,
  and makes a construction that reaches the setters raise ValueError.
\<close>

theorem setter_rejects_non_mapping:
  assumes "truthy v" and "\<not> isinstance_dict v"
  shows "reference_data_setter self v =
           Inl (ValueError (''Reference data must be given as a dictionary of the data source (string) and associated '' @
                            ''ReferenceDataEntry object'')) \<and>
         calculated_data_setter self v =
           Inl (ValueError (''Calculated data must be given as a dictionary of the model chemistry (string) and '' @
                            ''associated CalculatedDataEntry object'')) \<and>
         (\<forall>services args sp a.
            identity_species services args = Inr sp \<and>
            ArkaneSpecies_init services sp (arg_label args) (arg_kwargs args) = Inr a \<and>
            (arg_reference_data args = v \<or> arg_calculated_data args = v) \<longrightarrow>
            (\<exists>m. ReferenceSpecies_init services args = Inl (ValueError m)))"
proof (intro conjI allI impI)
  show "reference_data_setter self v =
           Inl (ValueError (''Reference data must be given as a dictionary of the data source (string) and associated '' @
                            ''ReferenceDataEntry object''))"
    using assms by (rule setter_non_dict)
  show "calculated_data_setter self v =
           Inl (ValueError (''Calculated data must be given as a dictionary of the model chemistry (string) and '' @
                            ''associated CalculatedDataEntry object''))"
    using assms by (rule setter_non_dict)
next
  fix services :: "'a species_services" and args :: "'a init_args" and sp a
  assume h: "identity_species services args = Inr sp \<and>
            ArkaneSpecies_init services sp (arg_label args) (arg_kwargs args) = Inr a \<and>
            (arg_reference_data args = v \<or> arg_calculated_data args = v)"
  let ?s0 = "\<lparr>smiles = arkane_smiles a, adjacency_list = arkane_adjacency_list a,
              label = arkane_label a, symmetry_number = arkane_symmetry_number a,
              reference_data_attr = Unassigned, calculated_data_attr = Unassigned,
              index = None, cas_number = None, preferred_reference = None,
              default_xyz_chemistry = None\<rparr>"
  from reference_data_setter_cases [of ?s0 "arg_reference_data args"]
  show "\<exists>m. ReferenceSpecies_init services args = Inl (ValueError m)"
  proof
    assume "\<exists>m. reference_data_setter ?s0 (arg_reference_data args) = Inl (ValueError m)"
    then show ?thesis
      using h by (auto simp: ReferenceSpecies_init_def)
  next
    assume "\<exists>s. reference_data_setter ?s0 (arg_reference_data args) = Inr s"
    then obtain s where s: "reference_data_setter ?s0 (arg_reference_data args) = Inr s"
      by blast
    have "arg_calculated_data args = v"
      using h s setter_non_dict(1) [OF assms, of ?s0] by auto
    then show ?thesis
      using h s setter_non_dict(2) [OF assms, of s] by (simp add: ReferenceSpecies_init_def)
  qed
qed

theorem setter_rejects_non_mapping_witness:
  "reference_data_setter three_sources (PStr ''ATcT'') =
     Inl (ValueError (''Reference data must be given as a dictionary of the data source (string) and associated '' @
                      ''ReferenceDataEntry object'')) \<and>
   calculated_data_setter three_sources (PStr ''ATcT'') =
     Inl (ValueError (''Calculated data must be given as a dictionary of the model chemistry (string) and '' @
                      ''associated CalculatedDataEntry object'')) \<and>
   ReferenceSpecies_init example_services
       (no_args\<lparr>arg_smiles := Some ''C'', arg_reference_data := PStr ''ATcT''\<rparr>) =
     Inl (ValueError (''Reference data must be given as a dictionary of the data source (string) and associated '' @
                      ''ReferenceDataEntry object''))"
  using setter_rejects_non_mapping [of "PStr ''ATcT''" three_sources]
  by (simp add: ReferenceSpecies_init_def example_services_def no_args_def identity_species_def
      setter_defs)

text \<open>
  Claim C4, at a failing input: \<^verbatim>\<open>ReferenceSpecies(smiles='C', reference_data={1: entry})\<close>.
  The construction returns an instance, the setter having assigned nothing, so the
  instance has no \<^verbatim>\<open>_reference_data\<close> and reading \<^verbatim>\<open>reference_data\<close> raises
  AttributeError: the field is not a mapping.
\<close>

theorem init_leaves_reference_data_unassigned:
  "ReferenceSpecies_init example_services
     (no_args\<lparr>arg_smiles := Some ''C'',
              arg_reference_data :=
                PDict [(PInt 1, PReferenceDataEntry (entry_with_uncertainty 1 1))]\<rparr>) =
   Inr \<lparr>smiles = ''C'', adjacency_list = ''C'', label = None, symmetry_number = Some 1,
        reference_data_attr = Unassigned, calculated_data_attr = Assigned [],
        index = None, cas_number = None, preferred_reference = None,
        default_xyz_chemistry = None\<rparr> \<and>
   reference_data
     \<lparr>smiles = ''C'', adjacency_list = ''C'', label = None, symmetry_number = Some 1,
      reference_data_attr = Unassigned, calculated_data_attr = Assigned [],
      index = None, cas_number = None, preferred_reference = None,
      default_xyz_chemistry = None\<rparr> = Inl (AttributeError ''_reference_data'')"
  by (simp add: ReferenceSpecies_init_def example_services_def no_args_def identity_species_def
      setter_defs reference_data_def)

subsection \<open>The default geometry\<close>

text \<open>
  Claim C7. With \<^verbatim>\<open>default_xyz_chemistry\<close> unset, \<^verbatim>\<open>get_default_xyz\<close> raises the ValueError
  that says so. With it set to a model chemistry that has an entry with a conformer, the
  call returns the conformer's atomic numbers and its SI coordinates, each multiplied by
  \<open>10 ^ 10\<close>; and whatever the call returns has this form.
\<close>

theorem get_default_xyz_angstrom:
  "(default_xyz_chemistry self = None \<longrightarrow>
      get_default_xyz self = Inl (ValueError
        (''The default model chemistry to use for XYZ coordinates has not been set for '' @
         repr self))) \<and>
   (\<forall>chem cd entry c.
      default_xyz_chemistry self = Some chem \<and> chem \<noteq> [] \<and>
      calculated_data_attr self = Assigned cd \<and> map_of cd chem = Some entry \<and>
      cde_conformer entry = Assigned (Some c) \<longrightarrow>
      get_default_xyz self =
        Inr \<lparr>numbers = number c, coords = map (map (\<lambda>x. x * 10 ^ 10)) (coordinates c)\<rparr>) \<and>
   (\<forall>r. get_default_xyz self = Inr r \<longrightarrow>
      (\<exists>chem cd entry c.
         default_xyz_chemistry self = Some chem \<and>
         calculated_data_attr self = Assigned cd \<and> map_of cd chem = Some entry \<and>
         cde_conformer entry = Assigned (Some c) \<and> numbers r = number c \<and>
         coords r = map (map (\<lambda>x. x * 10 ^ 10)) (coordinates c)))"
  by (auto simp: get_default_xyz_def calculated_data_def CalculatedDataEntry_conformer_def
      split: option.splits attr.splits if_splits sum.splits)

theorem get_default_xyz_angstrom_witness:
  "get_default_xyz species_with_geometry =
     Inr \<lparr>numbers = [6, 1], coords = [[0, 0, 0], [1, 0, 2]]\<rparr> \<and>
   get_default_xyz three_sources = Inl (ValueError
     (''The default model chemistry to use for XYZ coordinates has not been set for '' @
      ''<ReferenceSpecies C>''))"
  using get_default_xyz_angstrom [of species_with_geometry]
    get_default_xyz_angstrom [of three_sources]
  by (simp add: species_with_geometry_def species_with_def three_sources_def repr_def
      methane_conformer_def)

subsection \<open>Construction without an identity source\<close>

text \<open>
  Claim C8 does not hold as stated: with none of the four identity sources given, extra
  keyword data that identifies the structure (an InChIKey, coordinates) does not make the
  construction succeed; it raises the same ValueError.
\<close>

theorem init_ignores_kwargs_counterexample:
  "ReferenceSpecies_init example_services
     (no_args\<lparr>arg_kwargs := [(''inchi_key'', PStr ''VNWKTOKETHGBQD-UHFFFAOYSA-N''),
                              (''xyz'', PStr ''C 0.0 0.0 0.0'')]\<rparr>) =
   Inl (ValueError (''Either an rmgpy species object, smiles string, InChI string, or an adjacency list '' @
                    ''must be given to create a ReferenceSpecies object''))"
  by (simp add: ReferenceSpecies_init_def no_args_def identity_species_def)

text \<open>
  Claim C8, amended. When no structure object is given and none of the SMILES, InChI and
  adjacency-list strings is given and non-empty, the construction raises the descriptive
  ValueError, whatever the extra keyword data and the structure services are.
\<close>

theorem init_without_identity_fails:
  assumes "arg_species args = None" and "given (arg_smiles args) = None"
    and "given (arg_inchi args) = None" and "given (arg_adjacency_list args) = None"
  shows "ReferenceSpecies_init services (args\<lparr>arg_kwargs := kwargs\<rparr>) =
   Inl (ValueError (''Either an rmgpy species object, smiles string, InChI string, or an adjacency list '' @
                    ''must be given to create a ReferenceSpecies object''))"
  using assms by (simp add: ReferenceSpecies_init_def identity_species_def)

theorem init_without_identity_fails_witness:
  "ReferenceSpecies_init example_services
     (no_args\<lparr>arg_smiles := Some [], arg_kwargs := [(''label'', PStr ''methane'')]\<rparr>) =
   Inl (ValueError (''Either an rmgpy species object, smiles string, InChI string, or an adjacency list '' @
                    ''must be given to create a ReferenceSpecies object''))"
  using init_without_identity_fails [of "no_args\<lparr>arg_smiles := Some []\<rparr>" example_services
      "[(''label'', PStr ''methane'')]"]
  by (simp add: no_args_def)

subsection \<open>Species by index\<close>

lemma first_with_index_None:
  "first_with_index i S = None \<longleftrightarrow> (\<forall>r\<in>set S. index r \<noteq> Some i)"
  by (induction S) auto

lemma first_with_index_Some:
  "first_with_index i S = Some r \<longleftrightarrow>
     (\<exists>pre post. S = pre @ r # post \<and> index r = Some i \<and> (\<forall>x\<in>set pre. index x \<noteq> Some i))"
proof (induction S)
  case Nil
  then show ?case by simp
next
  case (Cons x S)
  show ?case
  proof (cases "index x = Some i")
    case True
    have "(\<exists>pre post. x # S = pre @ r # post \<and> index r = Some i \<and>
             (\<forall>y\<in>set pre. index y \<noteq> Some i)) \<longleftrightarrow> x = r"
    proof
      assume "\<exists>pre post. x # S = pre @ r # post \<and> index r = Some i \<and>
                (\<forall>y\<in>set pre. index y \<noteq> Some i)"
      then obtain pre post where p: "x # S = pre @ r # post" "\<forall>y\<in>set pre. index y \<noteq> Some i"
        by blast
      show "x = r"
        using p True by (cases pre) auto
    next
      assume "x = r"
      then have "x # S = [] @ r # S \<and> index r = Some i \<and> (\<forall>y\<in>set []. index y \<noteq> Some i)"
        using True by simp
      then show "\<exists>pre post. x # S = pre @ r # post \<and> index r = Some i \<and>
                   (\<forall>y\<in>set pre. index y \<noteq> Some i)"
        by blast
    qed
    then show ?thesis
      using True by auto
  next
    case False
    have "(\<exists>pre post. x # S = pre @ r # post \<and> index r = Some i \<and>
             (\<forall>y\<in>set pre. index y \<noteq> Some i)) \<longleftrightarrow>
          (\<exists>pre post. S = pre @ r # post \<and> index r = Some i \<and>
             (\<forall>y\<in>set pre. index y \<noteq> Some i))"
    proof
      assume "\<exists>pre post. x # S = pre @ r # post \<and> index r = Some i \<and>
                (\<forall>y\<in>set pre. index y \<noteq> Some i)"
      then obtain pre post where p: "x # S = pre @ r # post" "index r = Some i"
          "\<forall>y\<in>set pre. index y \<noteq> Some i"
        by blast
      then obtain pre' where "pre = x # pre'"
        using False by (cases pre) auto
      then have "S = pre' @ r # post \<and> index r = Some i \<and> (\<forall>y\<in>set pre'. index y \<noteq> Some i)"
        using p by auto
      then show "\<exists>pre post. S = pre @ r # post \<and> index r = Some i \<and>
                   (\<forall>y\<in>set pre. index y \<noteq> Some i)"
        by blast
    next
      assume "\<exists>pre post. S = pre @ r # post \<and> index r = Some i \<and>
                (\<forall>y\<in>set pre. index y \<noteq> Some i)"
      then obtain pre post where p: "S = pre @ r # post" "index r = Some i"
          "\<forall>y\<in>set pre. index y \<noteq> Some i"
        by blast
      then have "x # S = (x # pre) @ r # post \<and> index r = Some i \<and>
          (\<forall>y\<in>set (x # pre). index y \<noteq> Some i)"
        using False by simp
      then show "\<exists>pre post. x # S = pre @ r # post \<and> index r = Some i \<and>
                   (\<forall>y\<in>set pre. index y \<noteq> Some i)"
        by blast
    qed
    then show ?thesis
      using False Cons.IH by simp
  qed
qed

lemma get_species_from_index_loop_found:
  "\<forall>i\<in>set is. first_with_index i S \<noteq> None \<Longrightarrow>
   get_species_from_index_loop n S is acc = Inr (acc @ map (\<lambda>i. the (first_with_index i S)) is)"
  by (induction "is" arbitrary: acc) auto

lemma get_species_from_index_loop_missing:
  "\<forall>j\<in>set pre. first_with_index j S \<noteq> None \<Longrightarrow> first_with_index i S = None \<Longrightarrow>
   get_species_from_index_loop n S (pre @ i # post) acc =
     Inl (ValueError (''No reference species with index '' @ str_int i @
                      '' was found in reference set '' @ n))"
  by (induction pre arbitrary: acc) auto

lemma first_failing_split:
  "\<not> (\<forall>i\<in>set is. P i) \<Longrightarrow>
   \<exists>pre i post. is = pre @ i # post \<and> (\<forall>j\<in>set pre. P j) \<and> \<not> P i"
proof (induction "is")
  case Nil
  then show ?case by simp
next
  case (Cons a "is")
  show ?case
  proof (cases "P a")
    case True
    then have "\<not> (\<forall>i\<in>set is. P i)"
      using Cons.prems by simp
    from Cons.IH [OF this] obtain pre i post
      where "is = pre @ i # post" "\<forall>j\<in>set pre. P j" "\<not> P i"
      by blast
    then have "a # is = (a # pre) @ i # post \<and> (\<forall>j\<in>set (a # pre). P j) \<and> \<not> P i"
      using True by simp
    then show ?thesis by blast
  next
    case False
    then have "a # is = [] @ a # is \<and> (\<forall>j\<in>set []. P j) \<and> \<not> P a"
      by simp
    then show ?thesis by blast
  qed
qed

text \<open>
  Claim C6. In a database that has the named set: when every requested index is the index
  of some species of the set, \<^verbatim>\<open>get_species_from_index\<close> returns one species per
  requested index, in the order requested, each the first of the set with that index;
  otherwise it raises the ValueError whose message holds the first requested index
  without a match, in decimal, and the set's name. A single index is treated as the list
  holding it.
\<close>

theorem get_species_from_index_in_order:
  assumes "reference_sets self set_name = Some search_set"
  shows
   "((\<forall>i\<in>set is. \<exists>r\<in>set search_set. index r = Some i) \<longrightarrow>
       (\<exists>rs. get_species_from_index self (Indices is) set_name = Inr rs \<and>
             length rs = length is \<and>
             (\<forall>k<length is. \<exists>pre post.
                 search_set = pre @ rs ! k # post \<and> index (rs ! k) = Some (is ! k) \<and>
                 (\<forall>x\<in>set pre. index x \<noteq> Some (is ! k))))) \<and>
    (\<not> (\<forall>i\<in>set is. \<exists>r\<in>set search_set. index r = Some i) \<longrightarrow>
       (\<exists>pre i post. is = pre @ i # post \<and>
          (\<forall>j\<in>set pre. \<exists>r\<in>set search_set. index r = Some j) \<and>
          (\<forall>r\<in>set search_set. index r \<noteq> Some i) \<and>
          get_species_from_index self (Indices is) set_name =
            Inl (ValueError (''No reference species with index '' @ str_int i @
                             '' was found in reference set '' @ set_name)))) \<and>
    get_species_from_index self (Index i0) set_name =
      get_species_from_index self (Indices [i0]) set_name"
proof (intro conjI impI)
  assume all: "\<forall>i\<in>set is. \<exists>r\<in>set search_set. index r = Some i"
  then have f: "\<forall>i\<in>set is. first_with_index i search_set \<noteq> None"
    by (simp add: first_with_index_None)
  let ?rs = "map (\<lambda>i. the (first_with_index i search_set)) is"
  have res: "get_species_from_index self (Indices is) set_name = Inr ?rs"
    using assms get_species_from_index_loop_found [OF f, of set_name "[]"]
    by (simp add: get_species_from_index_def)
  have "\<exists>pre post. search_set = pre @ ?rs ! k # post \<and> index (?rs ! k) = Some (is ! k) \<and>
          (\<forall>x\<in>set pre. index x \<noteq> Some (is ! k))" if k: "k < length is" for k
  proof -
    from f k obtain r where r: "first_with_index (is ! k) search_set = Some r"
      by fastforce
    then have "?rs ! k = r"
      using k by simp
    then show ?thesis
      using r first_with_index_Some [of "is ! k" search_set r] by simp
  qed
  then show "\<exists>rs. get_species_from_index self (Indices is) set_name = Inr rs \<and>
             length rs = length is \<and>
             (\<forall>k<length is. \<exists>pre post.
                 search_set = pre @ rs ! k # post \<and> index (rs ! k) = Some (is ! k) \<and>
                 (\<forall>x\<in>set pre. index x \<noteq> Some (is ! k)))"
    using res by (intro exI [of _ ?rs]) simp
next
  assume "\<not> (\<forall>i\<in>set is. \<exists>r\<in>set search_set. index r = Some i)"
  from first_failing_split [of "is" "\<lambda>i. \<exists>r\<in>set search_set. index r = Some i", OF this]
  obtain pre i post where s: "is = pre @ i # post"
    "\<forall>j\<in>set pre. \<exists>r\<in>set search_set. index r = Some j"
    "\<not> (\<exists>r\<in>set search_set. index r = Some i)"
    by blast
  have "get_species_from_index_loop set_name search_set (pre @ i # post) [] =
     Inl (ValueError (''No reference species with index '' @ str_int i @
                      '' was found in reference set '' @ set_name))"
    using s(2,3) by (intro get_species_from_index_loop_missing) (simp_all add: first_with_index_None)
  then have "get_species_from_index self (Indices is) set_name =
            Inl (ValueError (''No reference species with index '' @ str_int i @
                             '' was found in reference set '' @ set_name))"
    using assms s(1) by (simp add: get_species_from_index_def)
  then show "\<exists>pre i post. is = pre @ i # post \<and>
          (\<forall>j\<in>set pre. \<exists>r\<in>set search_set. index r = Some j) \<and>
          (\<forall>r\<in>set search_set. index r \<noteq> Some i) \<and>
          get_species_from_index self (Indices is) set_name =
            Inl (ValueError (''No reference species with index '' @ str_int i @
                             '' was found in reference set '' @ set_name))"
    using s by blast
next
  show "get_species_from_index self (Index i0) set_name =
      get_species_from_index self (Indices [i0]) set_name"
    using assms by (simp add: get_species_from_index_def)
qed

theorem get_species_from_index_in_order_witness:
  "get_species_from_index indexed_database (Indices [3, 1]) ''main'' =
     Inr [indexed_species 3, indexed_species 1] \<and>
   get_species_from_index indexed_database (Indices [99]) ''main'' =
     Inl (ValueError ''No reference species with index 99 was found in reference set main'') \<and>
   get_species_from_index indexed_database (Index 2) ''main'' = Inr [indexed_species 2]"
  using get_species_from_index_in_order [of indexed_database "''main''"
      "[indexed_species 1, indexed_species 2, indexed_species 3]" "[3, 1]" 2]
  by (simp add: get_species_from_index_def indexed_database_def indexed_species_def
      species_with_def str_int_def str_nat.simps)

subsection \<open>Loading reference sets\<close>

lemma accepted_append:
  "accepted isom seen (xs @ ys) =
     accepted isom seen xs @ accepted isom (seen @ map enc_molecule (accepted isom seen xs)) ys"
  by (induction xs arbitrary: seen) auto

lemma set_accepted: "set (accepted isom seen es) \<subseteq> set es"
  by (induction es arbitrary: seen) auto

lemma load_spcs_files_step:
  assumes "file_loaded env path e"
  shows "load_spcs_files env path n (enc_file e # fs) (mols, rset, lg) =
     (if has_no_data (enc_spcs e) then
        load_spcs_files env path n fs (mols, rset, lg @ [no_data_warning (enc_spcs e) n])
      else if list_ex (isIsomorphic env (enc_molecule e)) mols then
        load_spcs_files env path n fs
          (mols, rset, lg @ [duplicate_warning (enc_spcs e) n (enc_file e)])
      else
        load_spcs_files env path n fs (mols @ [enc_molecule e], rset @ [enc_spcs e], lg))"
proof -
  from assms obtain cd where
    ly: "load_yaml env (path_join path (enc_file e)) = Inr (enc_spcs e)" and
    mo: "Molecule_fromAdjacencyList env (adjacency_list (enc_spcs e)) = Inr (enc_molecule e)" and
    cd: "calculated_data_attr (enc_spcs e) = Assigned cd" and
    rd: "cd = [] \<or> reference_data_attr (enc_spcs e) \<noteq> Unassigned"
    unfolding file_loaded_def by (cases "calculated_data_attr (enc_spcs e)") auto
  show ?thesis
  proof (cases "cd = []")
    case True
    then show ?thesis
      using ly mo cd by (simp add: calculated_data_def has_no_data_def)
  next
    case False
    with rd obtain rdv where rdv: "reference_data_attr (enc_spcs e) = Assigned rdv"
      by (cases "reference_data_attr (enc_spcs e)") auto
    show ?thesis
      using ly mo cd rdv False
      by (simp add: calculated_data_def reference_data_def has_no_data_def)
  qed
qed

lemma load_spcs_files_accepted:
  assumes "list_all (file_loaded env path) es"
  shows "\<exists>W. load_spcs_files env path n (map enc_file es) (mols, rset, lg) =
            Inr (mols @ map enc_molecule (accepted (isIsomorphic env) mols es),
                 rset @ map enc_spcs (accepted (isIsomorphic env) mols es), lg @ W) \<and>
            list_all is_Warning W \<and>
            length W + length (accepted (isIsomorphic env) mols es) = length es"
  using assms
proof (induction es arbitrary: mols rset lg)
  case Nil
  then show ?case by simp
next
  case (Cons e es)
  from Cons.prems have fl: "file_loaded env path e" and rest: "list_all (file_loaded env path) es"
    by simp_all
  note step = load_spcs_files_step [OF fl, of n "map enc_file es" mols rset lg]
  consider (empty) "has_no_data (enc_spcs e)"
    | (dup) "\<not> has_no_data (enc_spcs e)" "list_ex (isIsomorphic env (enc_molecule e)) mols"
    | (new) "\<not> has_no_data (enc_spcs e)" "\<not> list_ex (isIsomorphic env (enc_molecule e)) mols"
    by blast
  then show ?case
  proof cases
    case empty
    from Cons.IH [OF rest, of mols rset "lg @ [no_data_warning (enc_spcs e) n]"]
    obtain W where W: "load_spcs_files env path n (map enc_file es)
          (mols, rset, lg @ [no_data_warning (enc_spcs e) n]) =
        Inr (mols @ map enc_molecule (accepted (isIsomorphic env) mols es),
             rset @ map enc_spcs (accepted (isIsomorphic env) mols es),
             (lg @ [no_data_warning (enc_spcs e) n]) @ W)"
      "list_all is_Warning W"
      "length W + length (accepted (isIsomorphic env) mols es) = length es"
      by blast
    show ?thesis
      using step empty W
      by (intro exI [of _ "no_data_warning (enc_spcs e) n # W"]) (simp add: no_data_warning_def)
  next
    case dup
    from Cons.IH [OF rest, of mols rset "lg @ [duplicate_warning (enc_spcs e) n (enc_file e)]"]
    obtain W where W: "load_spcs_files env path n (map enc_file es)
          (mols, rset, lg @ [duplicate_warning (enc_spcs e) n (enc_file e)]) =
        Inr (mols @ map enc_molecule (accepted (isIsomorphic env) mols es),
             rset @ map enc_spcs (accepted (isIsomorphic env) mols es),
             (lg @ [duplicate_warning (enc_spcs e) n (enc_file e)]) @ W)"
      "list_all is_Warning W"
      "length W + length (accepted (isIsomorphic env) mols es) = length es"
      by blast
    show ?thesis
      using step dup W
      by (intro exI [of _ "duplicate_warning (enc_spcs e) n (enc_file e) # W"])
         (simp add: duplicate_warning_def)
  next
    case new
    from Cons.IH [OF rest, of "mols @ [enc_molecule e]" "rset @ [enc_spcs e]" lg]
    obtain W where W: "load_spcs_files env path n (map enc_file es)
          (mols @ [enc_molecule e], rset @ [enc_spcs e], lg) =
        Inr ((mols @ [enc_molecule e]) @
               map enc_molecule (accepted (isIsomorphic env) (mols @ [enc_molecule e]) es),
             (rset @ [enc_spcs e]) @
               map enc_spcs (accepted (isIsomorphic env) (mols @ [enc_molecule e]) es),
             lg @ W)"
      "list_all is_Warning W"
      "length W + length (accepted (isIsomorphic env) (mols @ [enc_molecule e]) es) = length es"
      by blast
    show ?thesis
      using step new W by (intro exI [of _ W]) simp
  qed
qed

text \<open>
  Conversely, a run of the loops that returns has read every file: the entries it met
  exist, and each is loaded.
\<close>

lemma load_spcs_files_Inr_loaded:
  "load_spcs_files env path n files st = Inr st' \<Longrightarrow>
   \<exists>es. files = map enc_file es \<and> list_all (file_loaded env path) es"
proof (induction files arbitrary: st)
  case Nil
  show ?case by (intro exI [of _ "[]"]) simp
next
  case (Cons f files)
  obtain mols rset lg where st: "st = (mols, rset, lg)"
    by (cases st) auto
  from Cons.prems obtain s where ly: "load_yaml env (path_join path f) = Inr s"
    unfolding st by (cases "load_yaml env (path_join path f)") auto
  from Cons.prems ly obtain m where
    mo: "Molecule_fromAdjacencyList env (adjacency_list s) = Inr m"
    unfolding st by (cases "Molecule_fromAdjacencyList env (adjacency_list s)") auto
  from Cons.prems ly mo obtain cd where cd: "calculated_data_attr s = Assigned cd"
    unfolding st by (cases "calculated_data_attr s") (auto simp: calculated_data_def)
  have rd: "cd = [] \<or> reference_data_attr s \<noteq> Unassigned"
    using Cons.prems ly mo cd unfolding st
    by (cases "reference_data_attr s")
       (auto simp: calculated_data_def reference_data_def split: if_splits)
  let ?e = "\<lparr>enc_set_name = basename path, enc_file = f, enc_spcs = s, enc_molecule = m\<rparr>"
  have fl: "file_loaded env path ?e"
    using ly mo cd rd by (auto simp: file_loaded_def)
  from load_spcs_files_step [OF fl, of n files mols rset lg] Cons.prems
  obtain st1 where "load_spcs_files env path n files st1 = Inr st'"
    unfolding st by (auto split: if_splits)
  from Cons.IH [OF this] obtain es where es: "files = map enc_file es"
    "list_all (file_loaded env path) es"
    by blast
  show ?case
    using es fl by (intro exI [of _ "?e # es"]) simp
qed

lemma directory_loaded_names:
  assumes "list_all2 (directory_loaded env) paths dirs"
  shows "\<forall>e\<in>set (concat dirs). enc_set_name e \<in> basename ` set paths"
  using assms
proof (induction rule: list_all2_induct)
  case Nil
  then show ?case by simp
next
  case (Cons p ps d ds)
  have "\<forall>e\<in>set d. enc_set_name e = basename p"
    using Cons.hyps(1) by (auto simp: directory_loaded_def file_loaded_def list_all_iff)
  then show ?case using Cons.IH by auto
qed

lemma filter_all: "\<forall>x\<in>set xs. P x \<Longrightarrow> filter P xs = xs"
  by (induction xs) auto

lemma filter_none: "\<forall>x\<in>set xs. \<not> P x \<Longrightarrow> filter P xs = []"
  by (induction xs) auto

lemma load_paths_accepted:
  assumes "list_all2 (directory_loaded env) paths dirs" and "distinct (map basename paths)"
  shows "\<exists>db' new. load_paths env paths (mols, db, lg) =
            Inr (mols @ map enc_molecule (accepted (isIsomorphic env) mols (concat dirs)),
                 db', lg @ new) \<and>
          (\<forall>n. reference_sets db' n =
             (if n \<in> basename ` set paths
              then Some (map enc_spcs (filter (\<lambda>e. enc_set_name e = n)
                            (accepted (isIsomorphic env) mols (concat dirs))))
              else reference_sets db n)) \<and>
          length (filter is_Warning new) +
            length (accepted (isIsomorphic env) mols (concat dirs)) = length (concat dirs)"
  using assms
proof (induction arbitrary: mols db lg rule: list_all2_induct)
  case Nil
  show ?case by (intro exI [of _ db] exI [of _ "[]"]) simp
next
  case (Cons p ps d ds)
  let ?iso = "isIsomorphic env"
  let ?A1 = "accepted ?iso mols d"
  let ?mols1 = "mols @ map enc_molecule ?A1"
  let ?A2 = "accepted ?iso ?mols1 (concat ds)"
  let ?info = "Info (''Loading in reference set `'' @ basename p @ ''` from '' @ p @ '' ...'')"
  let ?db1 = "db\<lparr>reference_sets := (reference_sets db)(basename p \<mapsto> map enc_spcs ?A1)\<rparr>"
  from Cons.hyps(1) have ld: "listdir env p = Inr (map enc_file d)"
    and fl: "list_all (file_loaded env p) d"
    by (simp_all add: directory_loaded_def)
  from load_spcs_files_accepted [OF fl, of "basename p" mols "[]" "lg @ [?info]"]
  obtain W where W:
    "load_spcs_files env p (basename p) (map enc_file d) (mols, [], lg @ [?info]) =
       Inr (?mols1, map enc_spcs ?A1, (lg @ [?info]) @ W)"
    "list_all is_Warning W" "length W + length ?A1 = length d"
    by auto
  from Cons.prems have dist: "distinct (map basename ps)" and notin: "basename p \<notin> basename ` set ps"
    by simp_all
  from Cons.IH [OF dist, of ?mols1 ?db1 "(lg @ [?info]) @ W"]
  obtain db' new' where IH:
    "load_paths env ps (?mols1, ?db1, (lg @ [?info]) @ W) =
       Inr (?mols1 @ map enc_molecule ?A2, db', ((lg @ [?info]) @ W) @ new')"
    "\<forall>n. reference_sets db' n =
       (if n \<in> basename ` set ps
        then Some (map enc_spcs (filter (\<lambda>e. enc_set_name e = n) ?A2))
        else reference_sets ?db1 n)"
    "length (filter is_Warning new') + length ?A2 = length (concat ds)"
    by blast
  have A: "accepted ?iso mols (concat (d # ds)) = ?A1 @ ?A2"
    by (simp add: accepted_append)
  have run: "load_paths env (p # ps) (mols, db, lg) =
       Inr (mols @ map enc_molecule (?A1 @ ?A2), db', lg @ (?info # W @ new'))"
    using ld W(1) IH(1) by simp
  have tag1: "\<forall>e\<in>set ?A1. enc_set_name e = basename p"
    using fl set_accepted [of ?iso mols d] by (auto simp: list_all_iff file_loaded_def)
  have tag2: "\<forall>e\<in>set ?A2. enc_set_name e \<in> basename ` set ps"
    using directory_loaded_names [OF Cons.hyps(2)] set_accepted [of ?iso ?mols1 "concat ds"]
    by blast
  have sets: "reference_sets db' n =
       (if n \<in> basename ` set (p # ps)
        then Some (map enc_spcs (filter (\<lambda>e. enc_set_name e = n) (?A1 @ ?A2)))
        else reference_sets db n)" for n
  proof (cases "n = basename p")
    case True
    have "filter (\<lambda>e. enc_set_name e = n) ?A1 = ?A1"
      using tag1 True by (intro filter_all) simp
    moreover have "\<forall>e\<in>set ?A2. enc_set_name e \<noteq> n"
      using tag2 True notin by metis
    then have "filter (\<lambda>e. enc_set_name e = n) ?A2 = []"
      by (intro filter_none)
    moreover have "reference_sets db' n = Some (map enc_spcs ?A1)"
      using IH(2) True notin by simp
    ultimately show ?thesis using True by simp
  next
    case False
    have "filter (\<lambda>e. enc_set_name e = n) ?A1 = []"
      using tag1 False by (intro filter_none) simp
    then show ?thesis using IH(2) False by simp
  qed
  have fw: "filter is_Warning W = W"
    using W(2) by (intro filter_all) (simp add: list_all_iff)
  have count: "length (filter is_Warning (?info # W @ new')) + length (?A1 @ ?A2) =
       length (concat (d # ds))"
    using fw W(3) IH(3) by simp
  show ?case
    unfolding A using run sets count
    by (intro exI [of _ db'] exI [of _ "?info # W @ new'"]) blast
qed

lemma load_paths_Inr_loaded:
  "load_paths env paths st = Inr st' \<Longrightarrow> \<exists>dirs. list_all2 (directory_loaded env) paths dirs"
proof (induction paths arbitrary: st)
  case Nil
  show ?case by simp
next
  case (Cons p ps)
  let ?info = "Info (''Loading in reference set `'' @ basename p @ ''` from '' @ p @ '' ...'')"
  obtain mols db lg where st: "st = (mols, db, lg)"
    by (cases st) auto
  from Cons.prems obtain files where ld: "listdir env p = Inr files"
    unfolding st by (cases "listdir env p") auto
  from Cons.prems ld obtain st1 where
    inner: "load_spcs_files env p (basename p) files (mols, [], lg @ [?info]) = Inr st1"
    unfolding st
    by (cases "load_spcs_files env p (basename p) files (mols, [], lg @ [?info])") auto
  from Cons.prems ld inner obtain st2 where "load_paths env ps st2 = Inr st'"
    unfolding st by (cases st1) auto
  from Cons.IH [OF this] obtain ds where ds: "list_all2 (directory_loaded env) ps ds"
    by blast
  from load_spcs_files_Inr_loaded [OF inner] obtain es where
    "files = map enc_file es" "list_all (file_loaded env p) es"
    by blast
  then have "directory_loaded env p es"
    using ld by (simp add: directory_loaded_def)
  then show ?case
    using ds by (intro exI [of _ "es # ds"]) simp
qed

lemma load_paths_loaded_Inr:
  assumes "list_all2 (directory_loaded env) paths dirs"
  shows "\<exists>st'. load_paths env paths (mols, db, lg) = Inr st'"
  using assms
proof (induction arbitrary: mols db lg rule: list_all2_induct)
  case Nil
  show ?case by simp
next
  case (Cons p ps d ds)
  let ?info = "Info (''Loading in reference set `'' @ basename p @ ''` from '' @ p @ '' ...'')"
  from Cons.hyps(1) have ld: "listdir env p = Inr (map enc_file d)"
    and fl: "list_all (file_loaded env p) d"
    by (simp_all add: directory_loaded_def)
  from load_spcs_files_accepted [OF fl, of "basename p" mols "[]" "lg @ [?info]"]
  obtain m1 r1 l1 where
    "load_spcs_files env p (basename p) (map enc_file d) (mols, [], lg @ [?info]) =
       Inr (m1, r1, l1)"
    by blast
  then show ?case
    using ld Cons.IH [of m1 "db\<lparr>reference_sets := (reference_sets db)(basename p \<mapsto> r1)\<rparr>" l1]
    by simp
qed

lemma Suc_image_shift: "{j. Suc j \<in> Suc ` K} = K"
  by auto

lemma nths_Suc_image: "nths (x # xs) (Suc ` K) = nths xs K"
  by (simp add: nths_Cons Suc_image_shift)

lemma nths_insert0_Suc_image: "nths (x # xs) (insert 0 (Suc ` K)) = x # nths xs K"
  by (simp add: nths_Cons Suc_image_shift)

lemma accepted_nths:
  "\<exists>K. K \<subseteq> {..<length es} \<and> accepted isom seen es = nths es K \<and>
     (\<forall>k<length es. k \<in> K \<longleftrightarrow>
        \<not> has_no_data (enc_spcs (es ! k)) \<and>
        \<not> list_ex (isom (enc_molecule (es ! k))) seen \<and>
        (\<forall>j\<in>K. j < k \<longrightarrow> \<not> isom (enc_molecule (es ! k)) (enc_molecule (es ! j))))"
proof (induction es arbitrary: seen)
  case Nil
  show ?case by (intro exI [of _ "{}"]) simp
next
  case (Cons e es)
  show ?case
  proof (cases "has_no_data (enc_spcs e) \<or> list_ex (isom (enc_molecule e)) seen")
    case True
    from Cons.IH [of seen] obtain K where K: "K \<subseteq> {..<length es}"
      "accepted isom seen es = nths es K"
      "\<forall>k<length es. k \<in> K \<longleftrightarrow>
        \<not> has_no_data (enc_spcs (es ! k)) \<and>
        \<not> list_ex (isom (enc_molecule (es ! k))) seen \<and>
        (\<forall>j\<in>K. j < k \<longrightarrow> \<not> isom (enc_molecule (es ! k)) (enc_molecule (es ! j)))"
      by blast
    let ?K = "Suc ` K"
    have 1: "?K \<subseteq> {..<length (e # es)}" using K(1) by auto
    have 2: "accepted isom seen (e # es) = nths (e # es) ?K"
      using True K(2) by (simp add: nths_Suc_image)
    have 3: "k \<in> ?K \<longleftrightarrow>
        \<not> has_no_data (enc_spcs ((e # es) ! k)) \<and>
        \<not> list_ex (isom (enc_molecule ((e # es) ! k))) seen \<and>
        (\<forall>j\<in>?K. j < k \<longrightarrow> \<not> isom (enc_molecule ((e # es) ! k)) (enc_molecule ((e # es) ! j)))"
      if "k < length (e # es)" for k
    proof (cases k)
      case 0
      then show ?thesis using True by auto
    next
      case (Suc k')
      then have "k' < length es" using that by simp
      with K(3) have "k' \<in> K \<longleftrightarrow>
        \<not> has_no_data (enc_spcs (es ! k')) \<and>
        \<not> list_ex (isom (enc_molecule (es ! k'))) seen \<and>
        (\<forall>j\<in>K. j < k' \<longrightarrow> \<not> isom (enc_molecule (es ! k')) (enc_molecule (es ! j)))"
        by blast
      then show ?thesis using Suc by auto
    qed
    show ?thesis using 1 2 3 by (intro exI [of _ ?K]) blast
  next
    case False
    from Cons.IH [of "seen @ [enc_molecule e]"] obtain K where K: "K \<subseteq> {..<length es}"
      "accepted isom (seen @ [enc_molecule e]) es = nths es K"
      "\<forall>k<length es. k \<in> K \<longleftrightarrow>
        \<not> has_no_data (enc_spcs (es ! k)) \<and>
        \<not> list_ex (isom (enc_molecule (es ! k))) (seen @ [enc_molecule e]) \<and>
        (\<forall>j\<in>K. j < k \<longrightarrow> \<not> isom (enc_molecule (es ! k)) (enc_molecule (es ! j)))"
      by blast
    let ?K = "insert 0 (Suc ` K)"
    have 1: "?K \<subseteq> {..<length (e # es)}" using K(1) by auto
    have 2: "accepted isom seen (e # es) = nths (e # es) ?K"
      using False K(2) by (simp add: nths_insert0_Suc_image)
    have 3: "k \<in> ?K \<longleftrightarrow>
        \<not> has_no_data (enc_spcs ((e # es) ! k)) \<and>
        \<not> list_ex (isom (enc_molecule ((e # es) ! k))) seen \<and>
        (\<forall>j\<in>?K. j < k \<longrightarrow> \<not> isom (enc_molecule ((e # es) ! k)) (enc_molecule ((e # es) ! j)))"
      if "k < length (e # es)" for k
    proof (cases k)
      case 0
      then show ?thesis using False by auto
    next
      case (Suc k')
      then have "k' < length es" using that by simp
      with K(3) have "k' \<in> K \<longleftrightarrow>
        \<not> has_no_data (enc_spcs (es ! k')) \<and>
        \<not> list_ex (isom (enc_molecule (es ! k'))) (seen @ [enc_molecule e]) \<and>
        (\<forall>j\<in>K. j < k' \<longrightarrow> \<not> isom (enc_molecule (es ! k')) (enc_molecule (es ! j)))"
        by blast
      then show ?thesis using Suc by auto
    qed
    show ?thesis using 1 2 3 by (intro exI [of _ ?K]) blast
  qed
qed

text \<open>
  Claim C5 does not hold as stated: loading two directories with the same final segment
  \<^verbatim>\<open>main\<close>, each holding methane, skips the second methane as a duplicate and then
  assigns the second directory's empty sequence to \<^verbatim>\<open>reference_sets['main']\<close>, so the
  methane met first is not retained there.
\<close>

theorem load_colliding_set_names_counterexample:
  "load colliding_sets ReferenceDatabase_init (PathList [''a/main'', ''b/main'']) [] =
     Inr (\<lparr>reference_sets = [''main'' \<mapsto> []]\<rparr>,
          [Info ''Loading in reference set `main` from a/main ...'',
           Info ''Loading in reference set `main` from b/main ...'',
           Warning (''Molecule C from reference set `main` already exists in the reference '' @
              ''database. The entry from this reference set will not be added. The path for '' @
              ''this species is 0.yml'')])"
  by (simp add: load_def effective_paths_def colliding_sets_def example_environment_def
      basename_def path_join_def species_with_data_def calculated_data_def reference_data_def
      duplicate_warning_def ReferenceDatabase_init_def)

text \<open>
  A call raises when a species it reads lacks an attribute the emptiness test reads, also
  when that species is a duplicate of one already kept; nothing is stored for the set.
\<close>

lemma load_half_built_raises:
  "load half_built_set ReferenceDatabase_init (PathStr ''sets/main'') [] =
     Inl (AttributeError ''_reference_data'')"
  by (simp add: load_def effective_paths_def half_built_set_def example_environment_def
      basename_def path_join_def species_with_data_def calculated_data_def reference_data_def
      ReferenceDatabase_init_def)

text \<open>
  Claim C5, amended. Take a \<^verbatim>\<open>load\<close> call whose paths have pairwise distinct set names
  and which returns. Then every directory and file of the call was read: \<open>concat dirs\<close>
  lists the entries in the order the call met them, across files and paths. There is a
  set \<open>K\<close> of kept positions such that a position is kept exactly when its species has
  calculated and reference data and its structure is isomorphic to no structure kept at an
  earlier position; \<^verbatim>\<open>reference_sets\<close> holds, for each set name of the call, the kept
  species of that set in the order met, and is unchanged at every other name; and the
  call has added one warning to the log for each entry it did not keep. Skipping raises
  nothing: the call returns whenever every directory is listed and every listed file
  deserialises to a species whose adjacency list parses, whose \<^verbatim>\<open>calculated_data\<close> is
  assigned and whose \<^verbatim>\<open>reference_data\<close> is assigned unless the calculated data is empty.
\<close>

theorem load_skips_duplicates_and_empty:
  "(distinct (map basename (effective_paths env paths)) \<and>
    load env db paths lg = Inr (db', lg') \<longrightarrow>
      (\<exists>dirs K new.
         list_all2 (directory_loaded env) (effective_paths env paths) dirs \<and>
         lg' = lg @ new \<and>
         K \<subseteq> {..<length (concat dirs)} \<and>
         (\<forall>k<length (concat dirs). k \<in> K \<longleftrightarrow>
            \<not> has_no_data (enc_spcs (concat dirs ! k)) \<and>
            (\<forall>j\<in>K. j < k \<longrightarrow>
               \<not> isIsomorphic env (enc_molecule (concat dirs ! k))
                    (enc_molecule (concat dirs ! j)))) \<and>
         (\<forall>n\<in>basename ` set (effective_paths env paths).
            reference_sets db' n =
              Some (map enc_spcs (filter (\<lambda>e. enc_set_name e = n) (nths (concat dirs) K)))) \<and>
         (\<forall>n. n \<notin> basename ` set (effective_paths env paths) \<longrightarrow>
            reference_sets db' n = reference_sets db n) \<and>
         length (filter is_Warning new) + length (nths (concat dirs) K) =
           length (concat dirs))) \<and>
   (list_all2 (directory_loaded env) (effective_paths env paths) dirs0 \<longrightarrow>
      (\<exists>db'' lg''. load env db paths lg = Inr (db'', lg'')))"
proof (intro conjI impI)
  assume h: "distinct (map basename (effective_paths env paths)) \<and>
    load env db paths lg = Inr (db', lg')"
  then have dist: "distinct (map basename (effective_paths env paths))"
    and ret: "load env db paths lg = Inr (db', lg')"
    by simp_all
  from ret obtain ml where
    run: "load_paths env (effective_paths env paths) ([], db, lg) = Inr (ml, db', lg')"
    by (auto simp: load_def split: sum.splits)
  from load_paths_Inr_loaded [OF run] obtain dirs where
    dirs: "list_all2 (directory_loaded env) (effective_paths env paths) dirs"
    by blast
  let ?E = "concat dirs"
  let ?A = "accepted (isIsomorphic env) [] ?E"
  from load_paths_accepted [OF dirs dist, of "[]" db lg]
  obtain db1 new where L:
    "load_paths env (effective_paths env paths) ([], db, lg) =
       Inr ([] @ map enc_molecule ?A, db1, lg @ new)"
    "\<forall>n. reference_sets db1 n =
       (if n \<in> basename ` set (effective_paths env paths)
        then Some (map enc_spcs (filter (\<lambda>e. enc_set_name e = n) ?A))
        else reference_sets db n)"
    "length (filter is_Warning new) + length ?A = length ?E"
    by blast
  from run L(1) have same: "db1 = db'" "lg' = lg @ new"
    by simp_all
  from accepted_nths [of ?E "isIsomorphic env" "[]"]
  obtain K where K: "K \<subseteq> {..<length ?E}" "?A = nths ?E K"
    "\<forall>k<length ?E. k \<in> K \<longleftrightarrow>
        \<not> has_no_data (enc_spcs (?E ! k)) \<and>
        \<not> list_ex (isIsomorphic env (enc_molecule (?E ! k))) [] \<and>
        (\<forall>j\<in>K. j < k \<longrightarrow> \<not> isIsomorphic env (enc_molecule (?E ! k)) (enc_molecule (?E ! j)))"
    by blast
  have "\<forall>k<length ?E. k \<in> K \<longleftrightarrow>
         \<not> has_no_data (enc_spcs (?E ! k)) \<and>
         (\<forall>j\<in>K. j < k \<longrightarrow>
            \<not> isIsomorphic env (enc_molecule (?E ! k)) (enc_molecule (?E ! j)))"
    using K(3) by simp
  moreover have "\<forall>n\<in>basename ` set (effective_paths env paths).
         reference_sets db' n =
           Some (map enc_spcs (filter (\<lambda>e. enc_set_name e = n) (nths ?E K)))"
    using L(2) K(2) same(1) by simp
  moreover have "\<forall>n. n \<notin> basename ` set (effective_paths env paths) \<longrightarrow>
         reference_sets db' n = reference_sets db n"
    using L(2) same(1) by simp
  moreover have "length (filter is_Warning new) + length (nths ?E K) = length ?E"
    using L(3) K(2) by simp
  ultimately show "\<exists>dirs K new.
         list_all2 (directory_loaded env) (effective_paths env paths) dirs \<and>
         lg' = lg @ new \<and>
         K \<subseteq> {..<length (concat dirs)} \<and>
         (\<forall>k<length (concat dirs). k \<in> K \<longleftrightarrow>
            \<not> has_no_data (enc_spcs (concat dirs ! k)) \<and>
            (\<forall>j\<in>K. j < k \<longrightarrow>
               \<not> isIsomorphic env (enc_molecule (concat dirs ! k))
                    (enc_molecule (concat dirs ! j)))) \<and>
         (\<forall>n\<in>basename ` set (effective_paths env paths).
            reference_sets db' n =
              Some (map enc_spcs (filter (\<lambda>e. enc_set_name e = n) (nths (concat dirs) K)))) \<and>
         (\<forall>n. n \<notin> basename ` set (effective_paths env paths) \<longrightarrow>
            reference_sets db' n = reference_sets db n) \<and>
         length (filter is_Warning new) + length (nths (concat dirs) K) =
           length (concat dirs)"
    using dirs same(2) K(1) by blast
next
  assume "list_all2 (directory_loaded env) (effective_paths env paths) dirs0"
  from load_paths_loaded_Inr [OF this, of "[]" db lg]
  obtain ml db1 lg1 where
    "load_paths env (effective_paths env paths) ([], db, lg) = Inr (ml, db1, lg1)"
    by (metis prod_cases3)
  then show "\<exists>db'' lg''. load env db paths lg = Inr (db'', lg'')"
    by (simp add: load_def)
qed

theorem load_skips_duplicates_and_empty_witness:
  "load two_sets ReferenceDatabase_init (PathList [''sets/main'', ''sets/extra'']) [] =
     Inr (\<lparr>reference_sets = [''main'' \<mapsto> [species_with_data ''C'' ''1 C u0 p0 c0''],
                              ''extra'' \<mapsto> [species_with_data ''O'' ''1 O u0 p2 c0'']]\<rparr>,
          [Info ''Loading in reference set `main` from sets/main ...'',
           duplicate_warning (species_with_data ''C'' ''1 C u0 p0 c0'') ''main'' ''1.yml'',
           no_data_warning (species_with_data ''CC'' ''1 C u0 p0 c0 {2,S}'') ''main'',
           Info ''Loading in reference set `extra` from sets/extra ...'',
           duplicate_warning (species_with_data ''C'' ''1 C u0 p0 c0'') ''extra'' ''0.yml'']) \<and>
   distinct (map basename
     (effective_paths two_sets (PathList [''sets/main'', ''sets/extra''])))"
proof -
  have bn: "basename ''sets/main'' = ''main''" "basename ''sets/extra'' = ''extra''"
    by (simp_all add: basename_def)
  have ep: "effective_paths two_sets (PathList [''sets/main'', ''sets/extra'']) =
      [''sets/main'', ''sets/extra'']"
    by (simp add: effective_paths_def)
  have h1: "distinct (map basename
      (effective_paths two_sets (PathList [''sets/main'', ''sets/extra''])))"
    unfolding ep by (simp add: bn)
  have h2: "list_all2 (directory_loaded two_sets)
      (effective_paths two_sets (PathList [''sets/main'', ''sets/extra''])) two_sets_encountered"
    unfolding ep
    by (simp add: two_sets_encountered_def directory_loaded_def file_loaded_def two_sets_def
        example_environment_def bn path_join_def species_with_data_def)
  let ?db = "\<lparr>reference_sets = [''main'' \<mapsto> [species_with_data ''C'' ''1 C u0 p0 c0''],
                              ''extra'' \<mapsto> [species_with_data ''O'' ''1 O u0 p2 c0'']]\<rparr>"
  let ?lg = "[Info ''Loading in reference set `main` from sets/main ...'',
           duplicate_warning (species_with_data ''C'' ''1 C u0 p0 c0'') ''main'' ''1.yml'',
           no_data_warning (species_with_data ''CC'' ''1 C u0 p0 c0 {2,S}'') ''main'',
           Info ''Loading in reference set `extra` from sets/extra ...'',
           duplicate_warning (species_with_data ''C'' ''1 C u0 p0 c0'') ''extra'' ''0.yml'']"
  have ev: "load two_sets ReferenceDatabase_init (PathList [''sets/main'', ''sets/extra'']) [] =
     Inr (?db, ?lg)"
    by (simp add: load_def effective_paths_def two_sets_def example_environment_def bn
        path_join_def species_with_data_def calculated_data_def reference_data_def
        ReferenceDatabase_init_def no_data_warning_def duplicate_warning_def)
  note inst = load_skips_duplicates_and_empty [of two_sets
      "PathList [''sets/main'', ''sets/extra'']" ReferenceDatabase_init "[]" ?db ?lg
      two_sets_encountered]
  from inst [THEN conjunct2, rule_format, OF h2]
  obtain db2 lg2 where
    "load two_sets ReferenceDatabase_init (PathList [''sets/main'', ''sets/extra'']) [] =
       Inr (db2, lg2)"
    by blast
  moreover from inst [THEN conjunct1, rule_format, OF conjI [OF h1 ev]]
  obtain dirs where "list_all2 (directory_loaded two_sets)
      (effective_paths two_sets (PathList [''sets/main'', ''sets/extra''])) dirs"
    by blast
  ultimately show ?thesis
    using ev h1 by simp
qed

end
